theory Spec2Isabelle
  imports Main
begin

section \<open>Values, documents and the store\<close>

text \<open>
  An ObjectId is represented by the string its \<^verbatim>\<open>toString()\<close> returns; the handlers
  compare ids through \<^verbatim>\<open>toString()\<close> only, and route parameters are strings.
  A property of a JSON request body is absent (\<^verbatim>\<open>undefined\<close>), \<^verbatim>\<open>null\<close> or a
  value; the values the handlers read are strings (and one list of strings).
\<close>

type_synonym objectId = string

datatype 'a field = Undefined | Null | Val 'a

text \<open>
  The \<^verbatim>\<open>dueDate\<close> string of a body is represented by what the schema's Date cast makes of
  it: the empty string (cast to null), a string that denotes a time (in milliseconds), or
  a non-empty string that is no date (the cast fails).
\<close>

datatype due = EmptyString | DateValue int | NotADate

text \<open>What a Date path stores when the cast succeeds; \<open>NotADate\<close> fails the validation.\<close>

fun castDate :: "due \<Rightarrow> int option" where
  "castDate (DateValue t) = Some t"
| "castDate EmptyString = None"
| "castDate NotADate = None"

text \<open>JavaScript truthiness of a string-valued property: the empty string is falsy.\<close>

fun truthy :: "string field \<Rightarrow> bool" where
  "truthy (Val s) = (s \<noteq> [])"
| "truthy Undefined = False"
| "truthy Null = False"

text \<open>\<^verbatim>\<open>a || d\<close> with a string default, \<^verbatim>\<open>a || null\<close>, and \<^verbatim>\<open>a || b\<close> on two properties.\<close>

fun or_else :: "string field \<Rightarrow> string \<Rightarrow> string" where
  "or_else (Val s) d = (if s \<noteq> [] then s else d)"
| "or_else Undefined d = d"
| "or_else Null d = d"

fun or_null :: "string field \<Rightarrow> string option" where
  "or_null (Val s) = (if s \<noteq> [] then Some s else None)"
| "or_null Undefined = None"
| "or_null Null = None"

definition or_field :: "string field \<Rightarrow> string field \<Rightarrow> string field" where
  "or_field a b = (if truthy a then a else b)"

text \<open>The HTTP errors of the handlers: status 400, 403, 404 and 500, with the message.\<close>

datatype error = BadRequest string | Forbidden string | NotFound string | ServerError string

record user =
  user_id :: objectId
  user_email :: string

record invite =
  email :: string
  role :: string
  invitedBy :: objectId
  token :: string
  expiresAt :: int

record project =
  project_id :: objectId
  name :: string
  description :: string
  key :: string
  owner :: objectId
  member :: "objectId list"
  pendingInvites :: "invite list"

record issue =
  issue_id :: objectId
  issue_key :: string
  title :: string
  issue_description :: string
  status :: string
  priority :: string
  reporter :: objectId
  assignee :: "objectId option"
  projectId :: objectId
  tags :: "string list"
  dueDate :: "int option"
  attachments :: "objectId list"
  comments :: "objectId list"

record comment =
  comment_id :: objectId
  content :: string
  author :: objectId
  issueId :: objectId
  attachment :: "objectId list"

record attachment_doc =
  attachment_id :: objectId
  url :: string
  uploadedBy :: objectId

text \<open>The document store: one list of documents per Mongoose model, in natural order.\<close>

record db =
  Users :: "user list"
  Projects :: "project list"
  Issues :: "issue list"
  Comments :: "comment list"
  Attachments :: "attachment_doc list"

text \<open>The request body: every property the modelled handlers destructure from it.\<close>

record body =
  b_name :: "string field"
  b_description :: "string field"
  b_key :: "string field"
  b_email :: string
  b_role :: "string field"
  b_title :: "string field"
  b_status :: "string field"
  b_priority :: "string field"
  b_assignee :: "string field"
  b_assigneeId :: "string field"
  b_tags :: "string list field"
  b_dueDate :: "due field"

datatype response = ProjectData project | IssueData issue | Message string

type_synonym result = "(error + response) \<times> db"

datatype http_method = GET | POST | PUT | DELETE

section \<open>Library functions the handlers call\<close>

text \<open>
  \<^verbatim>\<open>String.prototype.toUpperCase\<close> on ASCII strings, where it maps the letters a to z and
  keeps every other character. Strings with characters outside ASCII, which JavaScript may
  map as well, are outside the model: no statement below depends on the key of such a
  project.
\<close>

definition upper_char :: "char \<Rightarrow> char" where
  "upper_char c =
     (case map_of (zip ''abcdefghijklmnopqrstuvwxyz'' ''ABCDEFGHIJKLMNOPQRSTUVWXYZ'') c of
        Some u \<Rightarrow> u
      | None \<Rightarrow> c)"

definition toUpperCase :: "string \<Rightarrow> string" where
  "toUpperCase s = map upper_char s"

text \<open>The decimal numeral of a number, as a template literal prints it.\<close>

definition digit_char :: "nat \<Rightarrow> char" where
  "digit_char d = ''0123456789'' ! (d mod 10)"

function show_nat :: "nat \<Rightarrow> string" where
  "show_nat n = (if n < 10 then [digit_char n] else show_nat (n div 10) @ [digit_char (n mod 10)])"
  by pat_completeness auto
termination
  by (relation "measure (\<lambda>n. n)") auto

declare show_nat.simps [simp del]

text \<open>Reading a decimal numeral back, to check the printer against.\<close>

definition digit_value :: "char \<Rightarrow> nat" where
  "digit_value c = of_char c - 48"

definition read_nat :: "string \<Rightarrow> nat" where
  "read_nat s = foldl (\<lambda>n c. 10 * n + digit_value c) 0 s"

text \<open>
  The schema validators that a save runs: a required String path rejects a missing
  value and the empty string; an enum path accepts the listed values only.
\<close>

fun required :: "string field \<Rightarrow> bool" where
  "required (Val s) = (s \<noteq> [])"
| "required Undefined = False"
| "required Null = False"

fun val_of :: "string field \<Rightarrow> string" where
  "val_of (Val s) = s"
| "val_of Undefined = []"
| "val_of Null = []"

definition role_enum :: "string list" where
  "role_enum = [''manager'', ''developer'', ''viewer'']"

definition status_enum :: "string list" where
  "status_enum = [''todo'', ''inprogress'', ''done'']"

definition priority_enum :: "string list" where
  "priority_enum = [''low'', ''medium'', ''high'', ''urgent'']"

text \<open>
  \<^verbatim>\<open>sendEmail\<close> of utils/email.js: it returns true when the call to the mail provider
  resolves and throws when that call throws. The provider's outcome is a parameter.
\<close>

definition sendEmail :: "bool \<Rightarrow> string + bool" where
  "sendEmail resolved = (if resolved then Inr True else Inl ''Email could not be sent'')"

section \<open>The Project model\<close>

text \<open>
  The pre-save hook: the owner is put in front of the member list when it is absent. The
  owner is a required ObjectId, hence truthy; \<^verbatim>\<open>includes\<close> on a Mongoose array compares
  ObjectIds by value.
\<close>

definition pre_save :: "project \<Rightarrow> project" where
  "pre_save p = (if owner p \<notin> set (member p) then p\<lparr>member := owner p # member p\<rparr> else p)"

definition findProject :: "db \<Rightarrow> objectId \<Rightarrow> project option" where
  "findProject d i = find (\<lambda>p. project_id p = i) (Projects d)"

text \<open>\<^verbatim>\<open>project.save()\<close> of a loaded document, and \<^verbatim>\<open>Project.create\<close>: both run the hook.\<close>

definition save_project :: "db \<Rightarrow> project \<Rightarrow> db" where
  "save_project d p =
     d\<lparr>Projects := map (\<lambda>q. if project_id q = project_id p then pre_save p else q) (Projects d)\<rparr>"

definition create_project :: "db \<Rightarrow> project \<Rightarrow> db" where
  "create_project d p = d\<lparr>Projects := Projects d @ [pre_save p]\<rparr>"

definition isMember :: "project \<Rightarrow> user \<Rightarrow> bool" where
  "isMember p u = list_ex (\<lambda>m. m = user_id u) (member p)"

section \<open>Middleware (middleware/projectMiddleware.js)\<close>

definition checkProjectOwner :: "db \<Rightarrow> user \<Rightarrow> objectId \<Rightarrow> error + project" where
  "checkProjectOwner d u i =
     (case findProject d i of
        None \<Rightarrow> Inl (NotFound ''Project not found'')
      | Some p \<Rightarrow>
          if owner p \<noteq> user_id u
          then Inl (Forbidden ''Access denied - Only project owner can perform this action'')
          else Inr p)"

definition checkProjectMember :: "db \<Rightarrow> user \<Rightarrow> objectId \<Rightarrow> error + project" where
  "checkProjectMember d u i =
     (case findProject d i of
        None \<Rightarrow> Inl (NotFound ''Project not found'')
      | Some p \<Rightarrow>
          if \<not> isMember p u
          then Inl (Forbidden ''Access denied - Not a project member'')
          else Inr p)"

section \<open>Project handlers (controller/projectController.js)\<close>

definition createProject :: "db \<Rightarrow> user \<Rightarrow> body \<Rightarrow> objectId \<Rightarrow> result" where
  "createProject d u b newId =
     (case b_key b of
        Val k \<Rightarrow>
          if list_ex (\<lambda>p. key p = toUpperCase k) (Projects d)
          then (Inl (BadRequest ''Project with this key already exists''), d)
          else if \<not> (required (b_name b) \<and> required (b_description b) \<and> k \<noteq> [])
          then (Inl (ServerError ''Project validation failed''), d)
          else
            let p = \<lparr>project_id = newId, name = val_of (b_name b),
                     description = val_of (b_description b), key = toUpperCase k,
                     owner = user_id u, member = [user_id u], pendingInvites = []\<rparr>
            in (Inr (ProjectData (pre_save p)), create_project d p)
      | Undefined \<Rightarrow> (Inl (ServerError ''TypeError: key.toUpperCase''), d)
      | Null \<Rightarrow> (Inl (ServerError ''TypeError: key.toUpperCase''), d))"

definition updateProject :: "db \<Rightarrow> user \<Rightarrow> objectId \<Rightarrow> body \<Rightarrow> result" where
  "updateProject d u i b =
     (case findProject d i of
        None \<Rightarrow> (Inl (NotFound ''Project not found''), d)
      | Some p \<Rightarrow>
          if owner p \<noteq> user_id u
          then (Inl (Forbidden ''Access denied - Only project owner can update project''), d)
          else if truthy (b_key b) \<and> toUpperCase (val_of (b_key b)) \<noteq> key p
                  \<and> list_ex (\<lambda>q. key q = toUpperCase (val_of (b_key b))) (Projects d)
          then (Inl (BadRequest ''Project with this key already exists''), d)
          else
            let p' = p\<lparr>name := or_else (b_name b) (name p),
                       description := or_else (b_description b) (description p),
                       key := (if truthy (b_key b) then toUpperCase (val_of (b_key b)) else key p)\<rparr>
            in (Inr (ProjectData (pre_save p')), save_project d p'))"

definition deleteProject :: "db \<Rightarrow> user \<Rightarrow> objectId \<Rightarrow> result" where
  "deleteProject d u i =
     (case findProject d i of
        None \<Rightarrow> (Inl (NotFound ''Project not found''), d)
      | Some p \<Rightarrow>
          if owner p \<noteq> user_id u
          then (Inl (Forbidden ''Access denied - Only project owner can delete project''), d)
          else
            (Inr (Message ''Project and associated issues deleted successfully''),
             d\<lparr>Issues := filter (\<lambda>x. projectId x \<noteq> i) (Issues d),
               Projects := remove1 p (Projects d)\<rparr>))"

text \<open>
  \<^verbatim>\<open>inviteMember\<close>: the token (\<^verbatim>\<open>crypto.randomBytes\<close>), the clock (milliseconds, as
  \<^verbatim>\<open>Date.now()\<close> counts them) and the outcome of the mail provider are parameters. The
  invite is saved before the mail is sent; when \<^verbatim>\<open>sendEmail\<close> throws, the invites that
  carry the token are filtered out and the project is saved again before the error is
  raised. The email of the body is taken to be a string.
\<close>

definition inviteMember ::
  "db \<Rightarrow> user \<Rightarrow> objectId \<Rightarrow> body \<Rightarrow> string \<Rightarrow> int \<Rightarrow> bool \<Rightarrow> result" where
  "inviteMember d u i b inviteToken now resolved =
     (case findProject d i of
        None \<Rightarrow> (Inl (NotFound ''Project not found''), d)
      | Some p \<Rightarrow>
          if owner p \<noteq> user_id u
          then (Inl (Forbidden ''Access denied - Only project owner can invite members''), d)
          else if (case find (\<lambda>x. user_email x = b_email b) (Users d) of
                     None \<Rightarrow> False
                   | Some existingUser \<Rightarrow> isMember p existingUser)
          then (Inl (BadRequest ''User is already a member of this project''), d)
          else if find (\<lambda>v. email v = b_email b) (pendingInvites p) \<noteq> None
          then (Inl (BadRequest ''Invitation already sent to this email''), d)
          else if or_else (b_role b) ''developer'' \<notin> set role_enum
          then (Inl (ServerError ''Project validation failed''), d)
          else
            let expires = now + 7 * 24 * 60 * 60 * 1000;
                p1 = pre_save (p\<lparr>pendingInvites := pendingInvites p @
                        [\<lparr>email = b_email b, role = or_else (b_role b) ''developer'',
                          invitedBy = user_id u, token = inviteToken, expiresAt = expires\<rparr>]\<rparr>);
                d1 = save_project d p1
            in (case sendEmail resolved of
                  Inr _ \<Rightarrow> (Inr (Message ''Invitation sent successfully''), d1)
                | Inl _ \<Rightarrow>
                    let p2 = p1\<lparr>pendingInvites :=
                               filter (\<lambda>v. token v \<noteq> inviteToken) (pendingInvites p1)\<rparr>
                    in (Inl (ServerError ''Failed to send invitation email''), save_project d1 p2)))"

text \<open>
  \<^verbatim>\<open>acceptInvitation\<close>: the query matches a project that has an invite with the token and
  an invite that expires after now (two conditions on the array, each met by some element).
\<close>

definition findInvited :: "db \<Rightarrow> string \<Rightarrow> int \<Rightarrow> project option" where
  "findInvited d t now =
     find (\<lambda>p. list_ex (\<lambda>v. token v = t) (pendingInvites p)
              \<and> list_ex (\<lambda>v. now < expiresAt v) (pendingInvites p)) (Projects d)"

definition acceptInvitation :: "db \<Rightarrow> user \<Rightarrow> string \<Rightarrow> int \<Rightarrow> result" where
  "acceptInvitation d u t now =
     (case findInvited d t now of
        None \<Rightarrow> (Inl (BadRequest ''Invalid or expired invitation token''), d)
      | Some p \<Rightarrow>
          (case find (\<lambda>v. token v = t) (pendingInvites p) of
             None \<Rightarrow> (Inl (ServerError ''TypeError: invite.email''), d)
           | Some v \<Rightarrow>
               if email v \<noteq> user_email u
               then (Inl (Forbidden ''This invitation is not for your email address''), d)
               else
                 let p' = p\<lparr>member := (if \<not> isMember p u then member p @ [user_id u] else member p),
                            pendingInvites := filter (\<lambda>w. token w \<noteq> t) (pendingInvites p)\<rparr>
                 in (Inr (ProjectData (pre_save p')), save_project d p')))"

definition removeMember :: "db \<Rightarrow> user \<Rightarrow> objectId \<Rightarrow> objectId \<Rightarrow> result" where
  "removeMember d u i memberId =
     (case findProject d i of
        None \<Rightarrow> (Inl (NotFound ''Project not found''), d)
      | Some p \<Rightarrow>
          if owner p \<noteq> user_id u
          then (Inl (Forbidden ''Access denied - Only project owner can remove members''), d)
          else if memberId = user_id u
          then (Inl (BadRequest ''Project owner cannot remove themselves''), d)
          else if memberId \<notin> set (member p)
          then (Inl (NotFound ''Member not found in this project''), d)
          else (Inr (Message ''Member removed successfully''),
                save_project d (p\<lparr>member := remove1 memberId (member p)\<rparr>)))"

section \<open>The Issue model\<close>

definition findIssue :: "db \<Rightarrow> objectId \<Rightarrow> issue option" where
  "findIssue d i = find (\<lambda>x. issue_id x = i) (Issues d)"

definition save_issue :: "db \<Rightarrow> issue \<Rightarrow> db" where
  "save_issue d x = d\<lparr>Issues := map (\<lambda>y. if issue_id y = issue_id x then x else y) (Issues d)\<rparr>"

text \<open>The actor test of the issue handlers: project owner, reporter or current assignee.\<close>

definition isIssueActor :: "project \<Rightarrow> issue \<Rightarrow> user \<Rightarrow> bool" where
  "isIssueActor p x u =
     (owner p = user_id u \<or> reporter x = user_id u \<or> assignee x = Some (user_id u))"

definition checkIssuePermission ::
  "db \<Rightarrow> user \<Rightarrow> http_method \<Rightarrow> objectId \<Rightarrow> error + project \<times> issue" where
  "checkIssuePermission d u m i =
     (case findIssue d i of
        None \<Rightarrow> Inl (NotFound ''Issue not found'')
      | Some x \<Rightarrow>
          (case findProject d (projectId x) of
             None \<Rightarrow> Inl (ServerError ''TypeError: issue.projectId._id'')
           | Some p \<Rightarrow>
               if \<not> isMember p u
               then Inl (Forbidden ''Access denied - Not a project member'')
               else if m = GET then Inr (p, x)
               else if \<not> isIssueActor p x u
               then Inl (Forbidden
                 ''Access denied - Only project owner, reporter, or assignee can modify this issue'')
               else Inr (p, x)))"

definition checkIssueDeletePermission ::
  "db \<Rightarrow> user \<Rightarrow> objectId \<Rightarrow> error + project \<times> issue" where
  "checkIssueDeletePermission d u i =
     (case findIssue d i of
        None \<Rightarrow> Inl (NotFound ''Issue not found'')
      | Some x \<Rightarrow>
          (case findProject d (projectId x) of
             None \<Rightarrow> Inl (ServerError ''TypeError: issue.projectId._id'')
           | Some p \<Rightarrow>
               if owner p \<noteq> user_id u \<and> reporter x \<noteq> user_id u
               then Inl (Forbidden
                 ''Access denied - Only project owner or issue reporter can delete this issue'')
               else Inr (p, x)))"

section \<open>Issue handlers (the issue controller)\<close>

text \<open>
  \<^verbatim>\<open>createIssue\<close>: \<^verbatim>\<open>Issue.create\<close> validates the document: title and description are
  required, the priority is one of the enum, the dueDate (\<^verbatim>\<open>dueDate || null\<close>) casts to a
  Date, and the key is unique among the stored issues.
\<close>

definition createIssue :: "db \<Rightarrow> user \<Rightarrow> objectId \<Rightarrow> body \<Rightarrow> objectId \<Rightarrow> result" where
  "createIssue d u pid b newId =
     (case findProject d pid of
        None \<Rightarrow> (Inl (NotFound ''Project not found''), d)
      | Some p \<Rightarrow>
          if \<not> isMember p u
          then (Inl (Forbidden ''Access denied - Not a project member''), d)
          else if truthy (b_assignee b) \<and> \<not> list_ex (\<lambda>m. m = val_of (b_assignee b)) (member p)
          then (Inl (BadRequest ''Assignee must be a project member''), d)
          else
            let issueCount = length (filter (\<lambda>x. projectId x = pid) (Issues d));
                issueKey = key p @ ''-'' @ show_nat (issueCount + 1);
                x = \<lparr>issue_id = newId, issue_key = issueKey, title = val_of (b_title b),
                     issue_description = val_of (b_description b), status = ''todo'',
                     priority = or_else (b_priority b) ''medium'', reporter = user_id u,
                     assignee = or_null (b_assignee b), projectId = pid,
                     tags = (case b_tags b of Val ts \<Rightarrow> ts | Undefined \<Rightarrow> [] | Null \<Rightarrow> []),
                     dueDate = (case b_dueDate b of
                                  Val v \<Rightarrow> castDate v
                                | Undefined \<Rightarrow> None
                                | Null \<Rightarrow> None),
                     attachments = [], comments = []\<rparr>
            in if \<not> (required (b_title b) \<and> required (b_description b)
                      \<and> priority x \<in> set priority_enum)
                  \<or> b_dueDate b = Val NotADate
               then (Inl (ServerError ''Issue validation failed''), d)
               else if list_ex (\<lambda>y. issue_key y = issueKey) (Issues d)
               then (Inl (ServerError ''E11000 duplicate key error''), d)
               else (Inr (IssueData x), d\<lparr>Issues := Issues d @ [x]\<rparr>))"

text \<open>
  \<^verbatim>\<open>updateIssue\<close>: \<^verbatim>\<open>assignee\<close> and \<^verbatim>\<open>dueDate\<close> are taken when the key is present
  (\<^verbatim>\<open>!== undefined\<close>), the other properties when truthy. The save validates what was set:
  the enums of status and priority, the cast of the assignee to an ObjectId, which the
  empty string fails, and the cast of the dueDate to a Date.
\<close>

definition updateIssue :: "db \<Rightarrow> user \<Rightarrow> objectId \<Rightarrow> body \<Rightarrow> result" where
  "updateIssue d u i b =
     (case findIssue d i of
        None \<Rightarrow> (Inl (NotFound ''Issue not found''), d)
      | Some x \<Rightarrow>
          (case findProject d (projectId x) of
             None \<Rightarrow> (Inl (ServerError ''TypeError: issue.projectId._id''), d)
           | Some p \<Rightarrow>
               if \<not> isMember p u
               then (Inl (Forbidden ''Access denied - Not a project member''), d)
               else if owner p \<noteq> user_id u \<and> reporter x \<noteq> user_id u
                       \<and> assignee x \<noteq> Some (user_id u)
               then (Inl (Forbidden
                 ''Access denied - Only project owner, reporter, or assignee can update this issue''), d)
               else if truthy (b_assignee b)
                       \<and> \<not> list_ex (\<lambda>m. m = val_of (b_assignee b)) (member p)
               then (Inl (BadRequest ''Assignee must be a project member''), d)
               else
                 let x' = x\<lparr>title := or_else (b_title b) (title x),
                            issue_description := or_else (b_description b) (issue_description x),
                            status := or_else (b_status b) (status x),
                            priority := or_else (b_priority b) (priority x),
                            assignee := (case b_assignee b of
                                           Undefined \<Rightarrow> assignee x
                                         | Null \<Rightarrow> None
                                         | Val a \<Rightarrow> Some a),
                            tags := (case b_tags b of
                                       Val ts \<Rightarrow> ts
                                     | Undefined \<Rightarrow> tags x
                                     | Null \<Rightarrow> tags x),
                            dueDate := (case b_dueDate b of
                                          Undefined \<Rightarrow> dueDate x
                                        | Null \<Rightarrow> None
                                        | Val v \<Rightarrow> castDate v)\<rparr>
                 in if b_assignee b = Val [] \<or> b_dueDate b = Val NotADate
                       \<or> (truthy (b_status b) \<and> val_of (b_status b) \<notin> set status_enum)
                       \<or> (truthy (b_priority b) \<and> val_of (b_priority b) \<notin> set priority_enum)
                    then (Inl (ServerError ''Issue validation failed''), d)
                    else (Inr (IssueData x'), save_issue d x')))"

definition deleteIssue :: "db \<Rightarrow> user \<Rightarrow> objectId \<Rightarrow> result" where
  "deleteIssue d u i =
     (case findIssue d i of
        None \<Rightarrow> (Inl (NotFound ''Issue not found''), d)
      | Some x \<Rightarrow>
          (case findProject d (projectId x) of
             None \<Rightarrow> (Inl (ServerError ''TypeError: issue.projectId._id''), d)
           | Some p \<Rightarrow>
               if owner p \<noteq> user_id u \<and> reporter x \<noteq> user_id u
               then (Inl (Forbidden
                 ''Access denied - Only project owner or issue reporter can delete this issue''), d)
               else
                 (Inr (Message ''Issue and associated data deleted successfully''),
                  d\<lparr>Comments := filter (\<lambda>c. issueId c \<noteq> i) (Comments d),
                    Attachments :=
                      filter (\<lambda>a. attachment_id a \<notin> set (attachments x)) (Attachments d),
                    Issues := remove1 x (Issues d)\<rparr>)))"

definition assignIssue :: "db \<Rightarrow> user \<Rightarrow> objectId \<Rightarrow> body \<Rightarrow> result" where
  "assignIssue d u i b =
     (let targetAssignee = or_field (b_assigneeId b) (b_assignee b)
      in case findIssue d i of
           None \<Rightarrow> (Inl (NotFound ''Issue not found''), d)
         | Some x \<Rightarrow>
             (case findProject d (projectId x) of
                None \<Rightarrow> (Inl (ServerError ''TypeError: issue.projectId._id''), d)
              | Some p \<Rightarrow>
                  if \<not> isMember p u
                  then (Inl (Forbidden ''Access denied - Not a project member''), d)
                  else if truthy targetAssignee
                          \<and> \<not> list_ex (\<lambda>m. m = val_of targetAssignee) (member p)
                  then (Inl (BadRequest ''Assignee must be a project member''), d)
                  else
                    let x' = x\<lparr>assignee := or_null targetAssignee\<rparr>
                    in (Inr (IssueData x'), save_issue d x')))"

definition updateIssueStatus :: "db \<Rightarrow> user \<Rightarrow> objectId \<Rightarrow> body \<Rightarrow> result" where
  "updateIssueStatus d u i b =
     (case findIssue d i of
        None \<Rightarrow> (Inl (NotFound ''Issue not found''), d)
      | Some x \<Rightarrow>
          if assignee x \<noteq> Some (user_id u)
          then (Inl (Forbidden ''Access denied - Only the assignee can update the status''), d)
          else if \<not> (case b_status b of
                       Val s \<Rightarrow> s \<in> set status_enum
                     | Undefined \<Rightarrow> False
                     | Null \<Rightarrow> False)
          then (Inl (BadRequest ''Invalid status value''), d)
          else
            let x' = x\<lparr>status := val_of (b_status b)\<rparr>
            in (Inr (IssueData x'), save_issue d x'))"

section \<open>Routes: middleware, then handler\<close>

text \<open>A middleware that throws ends the request with its error; otherwise the handler runs.\<close>

definition via :: "error + 'a \<Rightarrow> db \<Rightarrow> result \<Rightarrow> result" where
  "via m d r = (case m of Inl e \<Rightarrow> (Inl e, d) | Inr _ \<Rightarrow> r)"

datatype request =
    PostProject body objectId
  | PutProject objectId body
  | DeleteProject objectId
  | PostInvite objectId body string bool
  | PostAcceptInvite string
  | DeleteMember objectId objectId
  | PostIssue objectId body objectId
  | PutIssue objectId body
  | DeleteIssue objectId
  | PutIssueAssign objectId body
  | PutIssueStatus objectId body

text \<open>
  The router of routes/projectRoutes.js and routes/issueRoutes.js for an authenticated
  user \<open>u\<close> at time \<open>now\<close>.
\<close>

fun route :: "db \<Rightarrow> user \<Rightarrow> int \<Rightarrow> request \<Rightarrow> result" where
  "route d u now (PostProject b newId) = createProject d u b newId"
| "route d u now (PutProject i b) = via (checkProjectOwner d u i) d (updateProject d u i b)"
| "route d u now (DeleteProject i) = via (checkProjectOwner d u i) d (deleteProject d u i)"
| "route d u now (PostInvite i b t resolved) =
     via (checkProjectOwner d u i) d (inviteMember d u i b t now resolved)"
| "route d u now (PostAcceptInvite t) = acceptInvitation d u t now"
| "route d u now (DeleteMember i memberId) =
     via (checkProjectOwner d u i) d (removeMember d u i memberId)"
| "route d u now (PostIssue pid b newId) =
     via (checkProjectMember d u pid) d (createIssue d u pid b newId)"
| "route d u now (PutIssue i b) = via (checkIssuePermission d u PUT i) d (updateIssue d u i b)"
| "route d u now (DeleteIssue i) = via (checkIssueDeletePermission d u i) d (deleteIssue d u i)"
| "route d u now (PutIssueAssign i b) =
     via (checkIssuePermission d u PUT i) d (assignIssue d u i b)"
| "route d u now (PutIssueStatus i b) =
     via (checkIssuePermission d u PUT i) d (updateIssueStatus d u i b)"

section \<open>Properties of the store\<close>

text \<open>The owner of a project is one of its members; the same for every stored project.\<close>

definition owner_is_member :: "project \<Rightarrow> bool" where
  "owner_is_member p = (owner p \<in> set (member p))"

definition owner_invariant :: "db \<Rightarrow> bool" where
  "owner_invariant d = list_all owner_is_member (Projects d)"

text \<open>
  Every project of the store \<open>d'\<close> is a project of \<open>d\<close> as it was, or has its owner
  among its members: whatever was written between \<open>d\<close> and \<open>d'\<close> keeps the owner in.
\<close>

definition written_ok :: "db \<Rightarrow> db \<Rightarrow> bool" where
  "written_ok d d' = list_all (\<lambda>q. q \<in> set (Projects d) \<or> owner_is_member q) (Projects d')"

section \<open>Example data\<close>

definition alice :: user where
  "alice = \<lparr>user_id = ''u1'', user_email = ''alice@x.com''\<rparr>"

definition bob :: user where
  "bob = \<lparr>user_id = ''u2'', user_email = ''bob@x.com''\<rparr>"

definition carol :: user where
  "carol = \<lparr>user_id = ''u3'', user_email = ''carol@x.com''\<rparr>"

definition no_body :: body where
  "no_body = \<lparr>b_name = Undefined, b_description = Undefined, b_key = Undefined, b_email = [],
     b_role = Undefined, b_title = Undefined, b_status = Undefined, b_priority = Undefined,
     b_assignee = Undefined, b_assigneeId = Undefined, b_tags = Undefined,
     b_dueDate = Undefined\<rparr>"

definition demo_project :: project where
  "demo_project = \<lparr>project_id = ''p1'', name = ''Demo'', description = ''A demo project'',
     key = ''DEMO'', owner = ''u1'', member = [''u1'', ''u2''], pendingInvites = []\<rparr>"

definition demo_db :: db where
  "demo_db = \<lparr>Users = [alice, bob, carol], Projects = [demo_project], Issues = [],
     Comments = [], Attachments = []\<rparr>"

definition new_project :: project where
  "new_project = \<lparr>project_id = ''p2'', name = ''New'', description = ''Another'',
     key = ''NEW'', owner = ''u1'', member = [''u1''], pendingInvites = []\<rparr>"

definition new_project_body :: body where
  "new_project_body = no_body\<lparr>b_name := Val ''New'', b_description := Val ''Another'',
     b_key := Val ''new''\<rparr>"

definition carol_invite :: invite where
  "carol_invite = \<lparr>email = ''carol@x.com'', role = ''developer'', invitedBy = ''u1'',
     token = ''tok1'', expiresAt = 1000\<rparr>"

definition invited_project :: project where
  "invited_project = demo_project\<lparr>pendingInvites := [carol_invite]\<rparr>"

definition invite_db :: db where
  "invite_db = demo_db\<lparr>Projects := [invited_project]\<rparr>"

definition carol_caps :: user where
  "carol_caps = \<lparr>user_id = ''u3'', user_email = ''Carol@x.com''\<rparr>"

text \<open>The project documents that hold an invite with the token.\<close>

definition holds_token :: "string \<Rightarrow> project \<Rightarrow> bool" where
  "holds_token t p = list_ex (\<lambda>v. token v = t) (pendingInvites p)"


definition joined_project :: project where
  "joined_project = demo_project\<lparr>member := [''u1'', ''u2'', ''u3'']\<rparr>"


definition carol_body :: body where
  "carol_body = no_body\<lparr>b_email := ''carol@x.com''\<rparr>"

definition demo_issue :: issue where
  "demo_issue = \<lparr>issue_id = ''i1'', issue_key = ''DEMO-1'', title = ''First'',
     issue_description = ''An issue'', status = ''todo'', priority = ''medium'',
     reporter = ''u2'', assignee = Some ''u2'', projectId = ''p1'', tags = [],
     dueDate = None, attachments = [''a1''], comments = [''c1'']\<rparr>"

definition issue_db :: db where
  "issue_db = demo_db\<lparr>Issues := [demo_issue]\<rparr>"

text \<open>The store after the owner has removed bob, the reporter and assignee of the issue.\<close>

definition removed_db :: db where
  "removed_db = issue_db\<lparr>Projects := [demo_project\<lparr>member := [''u1'']\<rparr>]\<rparr>"

text \<open>The store in which carol is a member too.\<close>

definition team_db :: db where
  "team_db = issue_db\<lparr>Projects := [joined_project]\<rparr>"

definition done_body :: body where
  "done_body = no_body\<lparr>b_status := Val ''done''\<rparr>"

definition closed_body :: body where
  "closed_body = no_body\<lparr>b_status := Val ''closed''\<rparr>"

definition assign_carol_body :: body where
  "assign_carol_body = no_body\<lparr>b_assigneeId := Val ''u3''\<rparr>"

definition comment_one :: comment where
  "comment_one = \<lparr>comment_id = ''c1'', content = ''Looks wrong'', author = ''u2'',
     issueId = ''i1'', attachment = [''a2'']\<rparr>"

definition comment_two :: comment where
  "comment_two = \<lparr>comment_id = ''c2'', content = ''Elsewhere'', author = ''u1'',
     issueId = ''i2'', attachment = []\<rparr>"

definition file_of :: "objectId \<Rightarrow> attachment_doc" where
  "file_of a = \<lparr>attachment_id = a, url = ''https://files.example/'' @ a, uploadedBy = ''u2''\<rparr>"

text \<open>
  The issue lists the attachment a1; its comment c1 lists a2; a3 is linked nowhere.
\<close>

definition files_db :: db where
  "files_db = issue_db\<lparr>Comments := [comment_one, comment_two],
     Attachments := [file_of ''a1'', file_of ''a2'', file_of ''a3'']\<rparr>"

definition empty_db :: db where
  "empty_db = \<lparr>Users = [], Projects = [], Issues = [], Comments = [], Attachments = []\<rparr>"

definition demo_body :: body where
  "demo_body = no_body\<lparr>b_name := Val ''Demo'', b_description := Val ''A demo project'',
     b_key := Val ''DEMO''\<rparr>"

definition issue_body :: body where
  "issue_body = no_body\<lparr>b_title := Val ''Second'', b_description := Val ''Another issue''\<rparr>"

definition second_issue :: issue where
  "second_issue = \<lparr>issue_id = ''i2'', issue_key = ''DEMO-2'', title = ''Second'',
     issue_description = ''Another issue'', status = ''todo'', priority = ''medium'',
     reporter = ''u1'', assignee = None, projectId = ''p1'', tags = [],
     dueDate = None, attachments = [], comments = []\<rparr>"

text \<open>The store after a list of requests of one user, and the key of a created issue.\<close>

definition run :: "db \<Rightarrow> user \<Rightarrow> int \<Rightarrow> request list \<Rightarrow> db" where
  "run d u now reqs = foldl (\<lambda>s r. snd (route s u now r)) d reqs"

definition created_key :: "result \<Rightarrow> string option" where
  "created_key r = (case fst r of Inr (IssueData y) \<Rightarrow> Some (issue_key y) | _ \<Rightarrow> None)"

text \<open>The assignee of an issue is null or a member of the project.\<close>

definition assignee_ok :: "project \<Rightarrow> issue \<Rightarrow> bool" where
  "assignee_ok p x = (case assignee x of None \<Rightarrow> True | Some a \<Rightarrow> a \<in> set (member p))"

definition blank_assignee_body :: body where
  "blank_assignee_body = issue_body\<lparr>b_assignee := Val ''''\<rparr>"

definition assign_outsider_body :: body where
  "assign_outsider_body = issue_body\<lparr>b_assignee := Val ''u3''\<rparr>"

definition assign_alice_body :: body where
  "assign_alice_body = issue_body\<lparr>b_assignee := Val ''u1''\<rparr>"

definition updated_issue :: issue where
  "updated_issue = demo_issue\<lparr>title := ''Second'', issue_description := ''Another issue'',
     assignee := Some ''u1''\<rparr>"

definition rename_body :: body where
  "rename_body = no_body\<lparr>b_title := Val ''Renamed''\<rparr>"






section \<open>The owner stays a member\<close>

lemma pre_save_owner: "owner_is_member (pre_save p)"
  by (simp add: pre_save_def owner_is_member_def)

lemma written_ok_refl: "written_ok d d"
  by (simp add: written_ok_def list_all_iff)

lemma written_ok_trans: "written_ok d d1 \<Longrightarrow> written_ok d1 d2 \<Longrightarrow> written_ok d d2"
  by (auto simp: written_ok_def list_all_iff)

lemma written_ok_save: "written_ok d (save_project d p)"
  by (auto simp: written_ok_def save_project_def list_all_iff pre_save_owner)

lemma written_ok_create: "written_ok d (create_project d p)"
  by (auto simp: written_ok_def create_project_def list_all_iff pre_save_owner)

lemma written_ok_Issues: "written_ok d (d\<lparr>Issues := xs\<rparr>)"
  by (simp add: written_ok_def list_all_iff)

lemma written_ok_save_issue: "written_ok d (save_issue d x)"
  by (simp add: save_issue_def written_ok_Issues)

lemma written_ok_createProject: "written_ok d (snd (createProject d u b newId))"
  by (simp add: createProject_def written_ok_refl written_ok_create Let_def split: field.splits)

lemma written_ok_updateProject: "written_ok d (snd (updateProject d u i b))"
  by (simp add: updateProject_def written_ok_refl written_ok_save Let_def split: option.splits)

lemma written_ok_deleteProject: "written_ok d (snd (deleteProject d u i))"
  by (auto simp: deleteProject_def written_ok_refl written_ok_def list_all_iff
      split: option.splits dest: set_remove1_subset [THEN subsetD])

lemma written_ok_inviteMember: "written_ok d (snd (inviteMember d u i b t now r))"
  by (auto simp: inviteMember_def written_ok_refl written_ok_save Let_def
      split: option.splits sum.splits intro: written_ok_trans [OF written_ok_save written_ok_save])

lemma written_ok_acceptInvitation: "written_ok d (snd (acceptInvitation d u t now))"
  by (simp add: acceptInvitation_def written_ok_refl written_ok_save Let_def split: option.splits)

lemma written_ok_removeMember: "written_ok d (snd (removeMember d u i m))"
  by (simp add: removeMember_def written_ok_refl written_ok_save split: option.splits)

lemma written_ok_createIssue: "written_ok d (snd (createIssue d u i b n))"
  by (simp add: createIssue_def written_ok_refl written_ok_Issues Let_def split: option.splits)

lemma written_ok_updateIssue: "written_ok d (snd (updateIssue d u i b))"
  by (simp add: updateIssue_def written_ok_refl written_ok_save_issue Let_def split: option.splits)

lemma written_ok_deleteIssue: "written_ok d (snd (deleteIssue d u i))"
  by (simp add: deleteIssue_def written_ok_refl written_ok_def list_all_iff split: option.splits)

lemma written_ok_assignIssue: "written_ok d (snd (assignIssue d u i b))"
  by (simp add: assignIssue_def written_ok_refl written_ok_save_issue Let_def split: option.splits)

lemma written_ok_updateIssueStatus: "written_ok d (snd (updateIssueStatus d u i b))"
  by (simp add: updateIssueStatus_def written_ok_refl written_ok_save_issue Let_def split: option.splits)

lemma written_ok_via: "written_ok d (snd r) \<Longrightarrow> written_ok d (snd (via m d r))"
  by (simp add: via_def written_ok_refl split: sum.splits)

lemma written_ok_route: "written_ok d (snd (route d u now req))"
  by (cases req)
    (simp_all add: written_ok_via written_ok_createProject written_ok_updateProject
      written_ok_deleteProject written_ok_inviteMember written_ok_acceptInvitation
      written_ok_removeMember written_ok_createIssue written_ok_updateIssue
      written_ok_deleteIssue written_ok_assignIssue written_ok_updateIssueStatus)

lemma written_ok_invariant: "written_ok d d' \<Longrightarrow> owner_invariant d \<Longrightarrow> owner_invariant d'"
  by (auto simp: written_ok_def owner_invariant_def list_all_iff)


lemma demo_invariant: "owner_invariant demo_db"
  by code_simp

lemma demo_find: "findProject demo_db ''p1'' = Some demo_project"
  by code_simp

lemma demo_remove_bob:
  "route demo_db alice 0 (DeleteMember ''p1'' ''u2'')
   = (Inr (Message ''Member removed successfully''),
      demo_db\<lparr>Projects := [demo_project\<lparr>member := [''u1'']\<rparr>]\<rparr>)"
  by code_simp

lemma demo_create:
  "createProject demo_db alice new_project_body ''p2''
   = (Inr (ProjectData new_project), demo_db\<lparr>Projects := [demo_project, new_project]\<rparr>)"
  by code_simp

text \<open>
  C1. Whatever request the router serves, every project document it writes has its owner
  among its members, so a store in which every owner is a member stays one; a created
  project has the creating user as owner and only member; and the owner's request to
  remove themselves from the member list is rejected with BadRequest, the store unchanged.
\<close>

theorem owner_always_member:
  "written_ok d (snd (route d u now req))
   \<and> (owner_invariant d \<longrightarrow> owner_invariant (snd (route d u now req)))
   \<and> (createProject d u b newId = (Inr (ProjectData p), d')
        \<longrightarrow> owner p = user_id u \<and> member p = [user_id u] \<and> Projects d' = Projects d @ [p])
   \<and> (findProject d i = Some q \<and> owner q = user_id u
        \<longrightarrow> route d u now (DeleteMember i (user_id u))
            = (Inl (BadRequest ''Project owner cannot remove themselves''), d))"
proof (intro conjI impI)
  show "written_ok d (snd (route d u now req))"
    by (rule written_ok_route)
next
  assume "owner_invariant d"
  with written_ok_route show "owner_invariant (snd (route d u now req))"
    by (rule written_ok_invariant)
next
  assume c: "createProject d u b newId = (Inr (ProjectData p), d')"
  then show "owner p = user_id u" "member p = [user_id u]" "Projects d' = Projects d @ [p]"
    by (auto simp: createProject_def create_project_def pre_save_def Let_def
        split: field.splits if_splits)
next
  assume "findProject d i = Some q \<and> owner q = user_id u"
  then show "route d u now (DeleteMember i (user_id u))
      = (Inl (BadRequest ''Project owner cannot remove themselves''), d)"
    by (simp add: via_def checkProjectOwner_def removeMember_def)
qed

theorem owner_always_member_witness:
  "owner_invariant demo_db
   \<and> owner_invariant (snd (route demo_db alice 0 (DeleteMember ''p1'' ''u2'')))
   \<and> createProject demo_db alice new_project_body ''p2''
       = (Inr (ProjectData new_project), demo_db\<lparr>Projects := [demo_project, new_project]\<rparr>)
   \<and> owner new_project = user_id alice \<and> member new_project = [user_id alice]
   \<and> findProject demo_db ''p1'' = Some demo_project \<and> owner demo_project = user_id alice
   \<and> route demo_db alice 0 (DeleteMember ''p1'' (user_id alice))
       = (Inl (BadRequest ''Project owner cannot remove themselves''), demo_db)"
  using owner_always_member [where d = demo_db and u = alice and now = 0
      and req = "DeleteMember ''p1'' ''u2''" and b = new_project_body and newId = "''p2''"
      and p = new_project and d' = "demo_db\<lparr>Projects := [demo_project, new_project]\<rparr>"
      and i = "''p1''" and q = demo_project]
    demo_invariant demo_find demo_create
  by (simp add: demo_project_def alice_def)

section \<open>Accepting an invitation\<close>

lemma findInvited_Some:
  "findInvited d t now = Some p \<Longrightarrow>
     p \<in> set (Projects d) \<and> holds_token t p \<and> list_ex (\<lambda>v. now < expiresAt v) (pendingInvites p)"
  by (auto simp: findInvited_def holds_token_def find_Some_iff)

lemma findInvited_None:
  "findInvited d t now = None \<longleftrightarrow>
     (\<forall>p \<in> set (Projects d). \<not> (holds_token t p \<and> list_ex (\<lambda>v. now < expiresAt v) (pendingInvites p)))"
  by (auto simp: findInvited_def holds_token_def find_None_iff)

lemma find_token_Some:
  "holds_token t p \<Longrightarrow> \<exists>v. find (\<lambda>v. token v = t) (pendingInvites p) = Some v
      \<and> v \<in> set (pendingInvites p) \<and> token v = t"
proof -
  assume "holds_token t p"
  then have "find (\<lambda>v. token v = t) (pendingInvites p) \<noteq> None"
    by (auto simp: holds_token_def find_None_iff list_ex_iff)
  then obtain v where v: "find (\<lambda>v. token v = t) (pendingInvites p) = Some v"
    by blast
  then have "v \<in> set (pendingInvites p) \<and> token v = t"
    by (auto simp: find_Some_iff)
  with v show ?thesis by blast
qed

text \<open>
  C5. When some pending invite with the token has not expired and every invite that carries
  the token is addressed to an email other than (as a string, so case counts) the accepting
  user's, acceptInvitation fails with Forbidden and the store is unchanged: the invite stays
  pending and no member list is modified.
\<close>

theorem accept_wrong_email_forbidden:
  assumes p: "p \<in> set (Projects d)"
    and v: "v \<in> set (pendingInvites p)" "token v = t" "now < expiresAt v"
    and other: "\<forall>q \<in> set (Projects d). \<forall>w \<in> set (pendingInvites q).
                  token w = t \<longrightarrow> email w \<noteq> user_email u"
  shows "route d u now (PostAcceptInvite t)
         = (Inl (Forbidden ''This invitation is not for your email address''), d)"
proof -
  from v have "holds_token t p \<and> list_ex (\<lambda>v. now < expiresAt v) (pendingInvites p)"
    by (auto simp: holds_token_def list_ex_iff)
  with p have "findInvited d t now \<noteq> None"
    by (auto simp: findInvited_None)
  then obtain q where q: "findInvited d t now = Some q"
    by blast
  then have q_in: "q \<in> set (Projects d)" and q_holds: "holds_token t q"
    by (simp_all add: findInvited_Some)
  from find_token_Some [OF q_holds] obtain w
    where w: "find (\<lambda>v. token v = t) (pendingInvites q) = Some w"
      "w \<in> set (pendingInvites q)" "token w = t"
    by blast
  with other q_in have "email w \<noteq> user_email u"
    by blast
  with q w show ?thesis
    by (simp add: acceptInvitation_def)
qed

theorem accept_wrong_email_forbidden_witness:
  "invited_project \<in> set (Projects invite_db)
   \<and> carol_invite \<in> set (pendingInvites invited_project)
   \<and> token carol_invite = ''tok1'' \<and> 5 < expiresAt carol_invite
   \<and> list_all (\<lambda>q. list_all (\<lambda>w. token w \<noteq> ''tok1'' \<or> email w \<noteq> user_email carol_caps)
        (pendingInvites q)) (Projects invite_db)
   \<and> route invite_db carol_caps 5 (PostAcceptInvite ''tok1'')
       = (Inl (Forbidden ''This invitation is not for your email address''), invite_db)"
proof -
  have a: "invited_project \<in> set (Projects invite_db)"
    by (simp add: invite_db_def)
  have b: "carol_invite \<in> set (pendingInvites invited_project)"
    by (simp add: invited_project_def)
  have c: "token carol_invite = ''tok1''" "5 < expiresAt carol_invite"
    by (simp_all add: carol_invite_def)
  have e: "list_all (\<lambda>q. list_all (\<lambda>w. token w \<noteq> ''tok1'' \<or> email w \<noteq> user_email carol_caps)
        (pendingInvites q)) (Projects invite_db)"
    by (simp add: invite_db_def invited_project_def carol_invite_def carol_caps_def)
  then have f: "\<forall>q \<in> set (Projects invite_db). \<forall>w \<in> set (pendingInvites q).
                  token w = ''tok1'' \<longrightarrow> email w \<noteq> user_email carol_caps"
    by (auto simp: list_all_iff)
  from accept_wrong_email_forbidden [OF a b c f] a b c e show ?thesis
    by simp
qed

lemma findProject_in: "findProject d i = Some p \<Longrightarrow> p \<in> set (Projects d) \<and> project_id p = i"
  by (auto simp: findProject_def find_Some_iff)

lemma find_map_replace:
  "x \<in> set xs \<Longrightarrow> f x = i \<Longrightarrow> f y = i \<Longrightarrow>
     find (\<lambda>q. f q = i) (map (\<lambda>q. if f q = i then y else q) xs) = Some y"
  by (induction xs) auto

lemma project_id_pre_save: "project_id (pre_save p) = project_id p"
  by (simp add: pre_save_def)

lemma pendingInvites_pre_save: "pendingInvites (pre_save p) = pendingInvites p"
  by (simp add: pre_save_def)

lemma findProject_save:
  assumes "p \<in> set (Projects d)" and "project_id p' = project_id p"
  shows "findProject (save_project d p') (project_id p) = Some (pre_save p')"
proof -
  have "find (\<lambda>q. project_id q = project_id p)
          (map (\<lambda>q. if project_id q = project_id p then pre_save p' else q) (Projects d))
        = Some (pre_save p')"
    using assms by (intro find_map_replace) (simp_all add: project_id_pre_save)
  with assms show ?thesis
    by (simp add: findProject_def save_project_def)
qed













section \<open>Inviting a member\<close>

lemma findProject_save_found:
  assumes "findProject d i = Some p" and "project_id p' = project_id p"
  shows "findProject (save_project d p') i = Some (pre_save p')"
  using findProject_save [of p d p'] findProject_in [OF assms(1)] assms(2) by simp

lemma filter_appended:
  "list_all (\<lambda>v. token v \<noteq> t) xs \<Longrightarrow> token w = t \<Longrightarrow>
     filter (\<lambda>v. token v \<noteq> t) (xs @ [w]) = xs"
  by (simp add: list_all_iff)

lemma pre_save_invites:
  "pre_save (p\<lparr>pendingInvites := xs\<rparr>) = (pre_save p)\<lparr>pendingInvites := xs\<rparr>"
  by (simp add: pre_save_def)

lemma pre_save_idem: "pre_save (pre_save p) = pre_save p"
  by (simp add: pre_save_def)

text \<open>
C7. inviteMember is compensated when the mail cannot be sent. For a request that passes
  the handler's checks, with a token that no pending invite of the project carries yet:
  when sendEmail throws, the request fails with status 500 and the stored project is the
  project as a save leaves it, its pendingInvites list the one from before the call; when
  the mail is sent, the request succeeds and the stored list is the old one followed by the
  new invite, with its token and an expiry seven days after now.
\<close>

theorem invite_rolled_back:
  assumes found: "findProject d i = Some p"
    and is_owner: "owner p = user_id u"
    and not_member: "(case find (\<lambda>x. user_email x = b_email b) (Users d) of
                        None \<Rightarrow> True
                      | Some existingUser \<Rightarrow> \<not> isMember p existingUser)"
    and not_pending: "list_all (\<lambda>v. email v \<noteq> b_email b) (pendingInvites p)"
    and role_ok: "or_else (b_role b) ''developer'' \<in> set role_enum"
    and fresh: "list_all (\<lambda>v. token v \<noteq> t) (pendingInvites p)"
  shows "(\<exists>d2. route d u now (PostInvite i b t False)
                 = (Inl (ServerError ''Failed to send invitation email''), d2)
              \<and> findProject d2 i = Some (pre_save p)
              \<and> pendingInvites (pre_save p) = pendingInvites p)
       \<and> (\<exists>d1 p1. route d u now (PostInvite i b t True)
                 = (Inr (Message ''Invitation sent successfully''), d1)
              \<and> findProject d1 i = Some p1
              \<and> pendingInvites p1 = pendingInvites p @
                   [\<lparr>email = b_email b, role = or_else (b_role b) ''developer'',
                     invitedBy = user_id u, token = t,
                     expiresAt = now + 7 * 24 * 60 * 60 * 1000\<rparr>])"
proof -
  define v where "v = \<lparr>email = b_email b, role = or_else (b_role b) ''developer'',
                     invitedBy = user_id u, token = t,
                     expiresAt = now + 7 * 24 * 60 * 60 * 1000\<rparr>"
  define p1 where "p1 = pre_save (p\<lparr>pendingInvites := pendingInvites p @ [v]\<rparr>)"
  define p2 where "p2 = p1\<lparr>pendingInvites := filter (\<lambda>w. token w \<noteq> t) (pendingInvites p1)\<rparr>"
  have chk: "checkProjectOwner d u i = Inr p"
    using found is_owner by (simp add: checkProjectOwner_def)
  have nm: "\<not> (case find (\<lambda>x. user_email x = b_email b) (Users d) of
                        None \<Rightarrow> False
                      | Some existingUser \<Rightarrow> isMember p existingUser)"
    using not_member by (simp split: option.splits)
  have np: "find (\<lambda>v. email v = b_email b) (pendingInvites p) = None"
    using not_pending by (simp add: find_None_iff list_all_iff)
  have id1: "project_id p1 = project_id p"
    by (simp add: p1_def project_id_pre_save)
  have id2: "project_id p2 = project_id p1"
    by (simp add: p2_def)
  have f1: "findProject (save_project d p1) i = Some (pre_save p1)"
    using found id1 by (rule findProject_save_found)
  have f2: "findProject (save_project (save_project d p1) p2) i = Some (pre_save p2)"
    using f1 by (rule findProject_save_found) (simp add: id2 project_id_pre_save)
  have inv1: "pendingInvites (pre_save p1) = pendingInvites p @ [v]"
    by (simp add: p1_def pendingInvites_pre_save)
  have "filter (\<lambda>w. token w \<noteq> t) (pendingInvites p @ [v]) = pendingInvites p"
    using fresh by (rule filter_appended) (simp add: v_def)
  moreover have "pendingInvites p1 = pendingInvites p @ [v]"
    by (simp add: p1_def pendingInvites_pre_save)
  ultimately have "filter (\<lambda>w. token w \<noteq> t) (pendingInvites p1) = pendingInvites p"
    by (simp only:)
  then have "p2 = p1\<lparr>pendingInvites := pendingInvites p\<rparr>"
    by (simp only: p2_def)
  also have "\<dots> = pre_save p"
    by (simp add: p1_def pre_save_def)
  finally have "p2 = pre_save p" .
  then have restored: "pre_save p2 = pre_save p"
    by (simp add: pre_save_idem)
  have fail: "route d u now (PostInvite i b t False)
      = (Inl (ServerError ''Failed to send invitation email''),
         save_project (save_project d p1) p2)"
    using found is_owner nm np role_ok
    by (simp add: via_def chk inviteMember_def sendEmail_def Let_def p1_def p2_def v_def)
  have good: "route d u now (PostInvite i b t True)
      = (Inr (Message ''Invitation sent successfully''), save_project d p1)"
    using found is_owner nm np role_ok
    by (simp add: via_def chk inviteMember_def sendEmail_def Let_def p1_def p2_def v_def)
  from fail f2 restored have "\<exists>d2. route d u now (PostInvite i b t False)
                 = (Inl (ServerError ''Failed to send invitation email''), d2)
              \<and> findProject d2 i = Some (pre_save p)
              \<and> pendingInvites (pre_save p) = pendingInvites p"
    by (simp add: pendingInvites_pre_save)
  moreover from good f1 inv1 have "\<exists>d1 p1. route d u now (PostInvite i b t True)
                 = (Inr (Message ''Invitation sent successfully''), d1)
              \<and> findProject d1 i = Some p1
              \<and> pendingInvites p1 = pendingInvites p @ [v]"
    by blast
  ultimately show ?thesis
    unfolding v_def by blast
qed

theorem invite_rolled_back_witness:
  "findProject demo_db ''p1'' = Some demo_project
   \<and> owner demo_project = user_id alice
   \<and> find (\<lambda>x. user_email x = b_email carol_body) (Users demo_db) = Some carol
   \<and> \<not> isMember demo_project carol
   \<and> list_all (\<lambda>v. email v \<noteq> b_email carol_body) (pendingInvites demo_project)
   \<and> or_else (b_role carol_body) ''developer'' \<in> set role_enum
   \<and> list_all (\<lambda>v. token v \<noteq> ''tok1'') (pendingInvites demo_project)
   \<and> route demo_db alice 0 (PostInvite ''p1'' carol_body ''tok1'' False)
       = (Inl (ServerError ''Failed to send invitation email''), demo_db)
   \<and> route demo_db alice 0 (PostInvite ''p1'' carol_body ''tok1'' True)
       = (Inr (Message ''Invitation sent successfully''),
          demo_db\<lparr>Projects := [demo_project\<lparr>pendingInvites :=
             [carol_invite\<lparr>expiresAt := 604800000\<rparr>]\<rparr>]\<rparr>)"
proof -
  have a: "findProject demo_db ''p1'' = Some demo_project"
    by (rule demo_find)
  have b: "owner demo_project = user_id alice"
    by code_simp
  have c: "find (\<lambda>x. user_email x = b_email carol_body) (Users demo_db) = Some carol"
    by code_simp
  have c': "\<not> isMember demo_project carol"
    by code_simp
  have e: "list_all (\<lambda>v. email v \<noteq> b_email carol_body) (pendingInvites demo_project)"
    by code_simp
  have f: "or_else (b_role carol_body) ''developer'' \<in> set role_enum"
    by code_simp
  have g: "list_all (\<lambda>v. token v \<noteq> ''tok1'') (pendingInvites demo_project)"
    by code_simp
  have h: "route demo_db alice 0 (PostInvite ''p1'' carol_body ''tok1'' False)
       = (Inl (ServerError ''Failed to send invitation email''), demo_db)"
    by code_simp
  have k: "route demo_db alice 0 (PostInvite ''p1'' carol_body ''tok1'' True)
       = (Inr (Message ''Invitation sent successfully''),
          demo_db\<lparr>Projects := [demo_project\<lparr>pendingInvites :=
             [carol_invite\<lparr>expiresAt := 604800000\<rparr>]\<rparr>]\<rparr>)"
    by code_simp
  from c c' have n: "(case find (\<lambda>x. user_email x = b_email carol_body) (Users demo_db) of
                        None \<Rightarrow> True
                      | Some existingUser \<Rightarrow> \<not> isMember demo_project existingUser)"
    by simp
  from invite_rolled_back [OF a b n e f g, of 0] a b c c' e f g h k show ?thesis
    by simp
qed

section \<open>Status updates and assignment\<close>

lemma findIssue_in: "findIssue d i = Some x \<Longrightarrow> x \<in> set (Issues d) \<and> issue_id x = i"
  by (auto simp: findIssue_def find_Some_iff)

text \<open>
  C3 as stated fails. After the owner has removed bob from the project, bob is still the
  assignee of the issue; his status update with the valid status \<open>done\<close> is refused with
  Forbidden by the route's permission check, which asks for project membership first.
\<close>

theorem status_update_needs_membership_counterexample:
  "route issue_db alice 0 (DeleteMember ''p1'' ''u2'')
     = (Inr (Message ''Member removed successfully''), removed_db)
   \<and> findIssue removed_db ''i1'' = Some demo_issue
   \<and> assignee demo_issue = Some (user_id bob)
   \<and> b_status done_body = Val ''done'' \<and> ''done'' \<in> set status_enum
   \<and> route removed_db bob 0 (PutIssueStatus ''i1'' done_body)
       = (Inl (Forbidden ''Access denied - Not a project member''), removed_db)"
  by code_simp

text \<open>
  C3, amended. For an existing issue of an existing project: the handler updateIssueStatus
  by itself succeeds exactly when the caller is the issue's assignee and the status is one
  of todo, inprogress, done; the request PUT /:id/status, which runs checkIssuePermission
  first, succeeds exactly when the caller is moreover a current member of the project, and
  then stores the issue with the new status. A caller who is not a current member of the
  project receives Forbidden, the assignee included; a caller who is not the assignee (the
  owner and the reporter included) receives Forbidden; the member who is the assignee
  receives BadRequest for any other status value; every failure leaves the store unchanged.
\<close>

theorem status_update_assignee_member:
  assumes x: "findIssue d i = Some x"
    and p: "findProject d (projectId x) = Some p"
  shows "((\<exists>r d'. updateIssueStatus d u i b = (Inr r, d'))
            \<longleftrightarrow> assignee x = Some (user_id u)
                \<and> (\<exists>s. b_status b = Val s \<and> s \<in> set status_enum))
       \<and> ((\<exists>r d'. route d u now (PutIssueStatus i b) = (Inr r, d'))
            \<longleftrightarrow> isMember p u \<and> assignee x = Some (user_id u)
                \<and> (\<exists>s. b_status b = Val s \<and> s \<in> set status_enum))
       \<and> (isMember p u \<and> assignee x = Some (user_id u) \<and> b_status b = Val s
             \<and> s \<in> set status_enum
           \<longrightarrow> route d u now (PutIssueStatus i b)
               = (Inr (IssueData (x\<lparr>status := s\<rparr>)), save_issue d (x\<lparr>status := s\<rparr>)))
       \<and> (\<not> isMember p u
           \<longrightarrow> route d u now (PutIssueStatus i b)
               = (Inl (Forbidden ''Access denied - Not a project member''), d))
       \<and> (assignee x \<noteq> Some (user_id u)
           \<longrightarrow> (\<exists>m. route d u now (PutIssueStatus i b) = (Inl (Forbidden m), d)))
       \<and> (isMember p u \<and> assignee x = Some (user_id u)
             \<and> \<not> (\<exists>s. b_status b = Val s \<and> s \<in> set status_enum)
           \<longrightarrow> route d u now (PutIssueStatus i b)
               = (Inl (BadRequest ''Invalid status value''), d))
       \<and> (route d u now (PutIssueStatus i b) = (Inl e, d') \<longrightarrow> d' = d)"
  using x p
  by (cases "b_status b")
    (auto simp: via_def checkIssuePermission_def updateIssueStatus_def isIssueActor_def Let_def)


theorem status_update_assignee_member_witness:
  "findIssue issue_db ''i1'' = Some demo_issue
   \<and> findProject issue_db (projectId demo_issue) = Some demo_project
   \<and> isMember demo_project bob \<and> assignee demo_issue = Some (user_id bob)
   \<and> b_status done_body = Val ''done'' \<and> ''done'' \<in> set status_enum
   \<and> route issue_db bob 0 (PutIssueStatus ''i1'' done_body)
       = (Inr (IssueData (demo_issue\<lparr>status := ''done''\<rparr>)),
          save_issue issue_db (demo_issue\<lparr>status := ''done''\<rparr>))
   \<and> assignee demo_issue \<noteq> Some (user_id alice)
   \<and> route issue_db alice 0 (PutIssueStatus ''i1'' done_body)
       = (Inl (Forbidden ''Access denied - Only the assignee can update the status''), issue_db)
   \<and> b_status closed_body = Val ''closed'' \<and> ''closed'' \<notin> set status_enum
   \<and> route issue_db bob 0 (PutIssueStatus ''i1'' closed_body)
       = (Inl (BadRequest ''Invalid status value''), issue_db)
   \<and> findIssue removed_db ''i1'' = Some demo_issue
   \<and> findProject removed_db (projectId demo_issue) = Some (demo_project\<lparr>member := [''u1'']\<rparr>)
   \<and> \<not> isMember (demo_project\<lparr>member := [''u1'']\<rparr>) bob
   \<and> route removed_db bob 0 (PutIssueStatus ''i1'' done_body)
       = (Inl (Forbidden ''Access denied - Not a project member''), removed_db)"
proof -
  have x: "findIssue issue_db ''i1'' = Some demo_issue"
    by code_simp
  have x': "findIssue removed_db ''i1'' = Some demo_issue"
    by code_simp
  have p': "findProject removed_db (projectId demo_issue)
      = Some (demo_project\<lparr>member := [''u1'']\<rparr>)"
    by code_simp
  have nm: "\<not> isMember (demo_project\<lparr>member := [''u1'']\<rparr>) bob"
    by code_simp
  have gone: "route removed_db bob 0 (PutIssueStatus ''i1'' done_body)
       = (Inl (Forbidden ''Access denied - Not a project member''), removed_db)"
    using status_update_assignee_member [OF x' p', of bob done_body 0] nm
    by blast
  have p: "findProject issue_db (projectId demo_issue) = Some demo_project"
    by code_simp
  have rest: "isMember demo_project bob \<and> assignee demo_issue = Some (user_id bob)
   \<and> b_status done_body = Val ''done'' \<and> ''done'' \<in> set status_enum
   \<and> assignee demo_issue \<noteq> Some (user_id alice)
   \<and> route issue_db alice 0 (PutIssueStatus ''i1'' done_body)
       = (Inl (Forbidden ''Access denied - Only the assignee can update the status''), issue_db)
   \<and> b_status closed_body = Val ''closed'' \<and> ''closed'' \<notin> set status_enum"
    by code_simp
  have good: "route issue_db bob 0 (PutIssueStatus ''i1'' done_body)
       = (Inr (IssueData (demo_issue\<lparr>status := ''done''\<rparr>)),
          save_issue issue_db (demo_issue\<lparr>status := ''done''\<rparr>))"
    using status_update_assignee_member [OF x p, of bob done_body 0 "''done''"] rest
    by blast
  have "\<not> (\<exists>s. b_status closed_body = Val s \<and> s \<in> set status_enum)"
    using rest by auto
  then have bad: "route issue_db bob 0 (PutIssueStatus ''i1'' closed_body)
       = (Inl (BadRequest ''Invalid status value''), issue_db)"
    using status_update_assignee_member [OF x p, of bob closed_body 0] rest
    by blast
  from good bad x p rest x' p' nm gone show ?thesis
    by blast
qed

lemma assignIssue_handler:
  assumes x: "findIssue d i = Some x"
    and p: "findProject d (projectId x) = Some p"
    and tgt: "target = or_field (b_assigneeId b) (b_assignee b)"
  shows "(\<exists>r d'. assignIssue d u i b = (Inr r, d'))
           \<longleftrightarrow> isMember p u \<and> (truthy target \<longrightarrow> val_of target \<in> set (member p))"
  using x p tgt
  by (auto simp: assignIssue_def Let_def list_ex_iff)

lemma assign_route_forbidden:
  assumes x: "findIssue d i = Some x"
    and p: "findProject d (projectId x) = Some p"
    and m: "isMember p u" and a: "\<not> isIssueActor p x u"
  shows "route d u now (PutIssueAssign i b)
         = (Inl (Forbidden
             ''Access denied - Only project owner, reporter, or assignee can modify this issue''),
            d)"
  using x p m a
  by (simp add: via_def checkIssuePermission_def)

text \<open>
  C4. The code departs from the claim. Carol is a member of the project and neither its
  owner nor the reporter or assignee of the issue. The handler assignIssue, whose only test
  of the caller is project membership, would reassign the issue to her; but the route
  PUT /:id/assign runs checkIssuePermission before the handler, and her request to reassign
  the issue to a member, like her request to unassign it, is refused with Forbidden and the
  store is unchanged.
\<close>

theorem assign_route_refuses_member:
  "findIssue team_db ''i1'' = Some demo_issue
   \<and> findProject team_db (projectId demo_issue) = Some joined_project
   \<and> isMember joined_project carol
   \<and> owner joined_project \<noteq> user_id carol \<and> reporter demo_issue \<noteq> user_id carol
   \<and> assignee demo_issue \<noteq> Some (user_id carol)
   \<and> or_field (b_assigneeId assign_carol_body) (b_assignee assign_carol_body) = Val ''u3''
   \<and> ''u3'' \<in> set (member joined_project)
   \<and> assignIssue team_db carol ''i1'' assign_carol_body
       = (Inr (IssueData (demo_issue\<lparr>assignee := Some ''u3''\<rparr>)),
          save_issue team_db (demo_issue\<lparr>assignee := Some ''u3''\<rparr>))
   \<and> route team_db carol 0 (PutIssueAssign ''i1'' assign_carol_body)
       = (Inl (Forbidden
           ''Access denied - Only project owner, reporter, or assignee can modify this issue''),
          team_db)
   \<and> route team_db carol 0 (PutIssueAssign ''i1'' no_body)
       = (Inl (Forbidden
           ''Access denied - Only project owner, reporter, or assignee can modify this issue''),
          team_db)"
  by code_simp

section \<open>Deleting an issue\<close>

lemma remove1_find_None:
  "distinct (map f xs) \<Longrightarrow> x \<in> set xs \<Longrightarrow> find (\<lambda>y. f y = f x) (remove1 x xs) = None"
  by (induction xs) (auto simp: find_None_iff image_iff dest: notin_set_remove1)

lemma delete_route:
  assumes x: "findIssue d i = Some x"
    and p: "findProject d (projectId x) = Some p"
    and auth: "owner p = user_id u \<or> reporter x = user_id u"
  shows "route d u now (DeleteIssue i)
         = (Inr (Message ''Issue and associated data deleted successfully''),
            d\<lparr>Comments := filter (\<lambda>c. issueId c \<noteq> i) (Comments d),
              Attachments := filter (\<lambda>a. attachment_id a \<notin> set (attachments x)) (Attachments d),
              Issues := remove1 x (Issues d)\<rparr>)"
  using x p auth
  by (auto simp: via_def checkIssueDeletePermission_def deleteIssue_def)

lemma delete_route_denied:
  assumes x: "findIssue d i = Some x"
    and p: "findProject d (projectId x) = Some p"
    and auth: "\<not> (owner p = user_id u \<or> reporter x = user_id u)"
  shows "route d u now (DeleteIssue i)
         = (Inl (Forbidden
             ''Access denied - Only project owner or issue reporter can delete this issue''), d)"
  using x p auth
  by (auto simp: via_def checkIssueDeletePermission_def)

text \<open>
  C8. For an existing issue of an existing project, the delete request of the project owner
  or of the issue's reporter succeeds. Afterwards the issue is removed (no issue has its id
  when ids are unique), no comment with that issueId remains, and no attachment whose id was
  in the issue's attachments list remains; every other attachment is kept, in particular one
  referenced only from the attachment list of a deleted comment.
\<close>

theorem delete_issue_cascade:
  assumes x: "findIssue d i = Some x"
    and p: "findProject d (projectId x) = Some p"
    and auth: "owner p = user_id u \<or> reporter x = user_id u"
  shows "\<exists>d'. route d u now (DeleteIssue i)
                = (Inr (Message ''Issue and associated data deleted successfully''), d')
           \<and> Issues d' = remove1 x (Issues d)
           \<and> (distinct (map issue_id (Issues d)) \<longrightarrow> findIssue d' i = None)
           \<and> Comments d' = filter (\<lambda>c. issueId c \<noteq> i) (Comments d)
           \<and> list_all (\<lambda>c. issueId c \<noteq> i) (Comments d')
           \<and> Attachments d'
               = filter (\<lambda>a. attachment_id a \<notin> set (attachments x)) (Attachments d)
           \<and> list_all (\<lambda>a. attachment_id a \<notin> set (attachments x)) (Attachments d')
           \<and> (\<forall>c \<in> set (Comments d). \<forall>a \<in> set (Attachments d).
                 issueId c = i \<and> attachment_id a \<in> set (attachment c)
                   \<and> attachment_id a \<notin> set (attachments x)
                 \<longrightarrow> a \<in> set (Attachments d'))"
proof -
  define d' where "d' = d\<lparr>Comments := filter (\<lambda>c. issueId c \<noteq> i) (Comments d),
              Attachments := filter (\<lambda>a. attachment_id a \<notin> set (attachments x)) (Attachments d),
              Issues := remove1 x (Issues d)\<rparr>"
  have run: "route d u now (DeleteIssue i)
                = (Inr (Message ''Issue and associated data deleted successfully''), d')"
    unfolding d'_def using x p auth by (rule delete_route)
  have gone: "findIssue d' i = None" if "distinct (map issue_id (Issues d))"
    using remove1_find_None [OF that, of x] findIssue_in [OF x]
    by (simp add: findIssue_def d'_def)
  have "Issues d' = remove1 x (Issues d)"
    and "Comments d' = filter (\<lambda>c. issueId c \<noteq> i) (Comments d)"
    and "list_all (\<lambda>c. issueId c \<noteq> i) (Comments d')"
    and "Attachments d' = filter (\<lambda>a. attachment_id a \<notin> set (attachments x)) (Attachments d)"
    and "list_all (\<lambda>a. attachment_id a \<notin> set (attachments x)) (Attachments d')"
    and "\<forall>c \<in> set (Comments d). \<forall>a \<in> set (Attachments d).
                 issueId c = i \<and> attachment_id a \<in> set (attachment c)
                   \<and> attachment_id a \<notin> set (attachments x)
                 \<longrightarrow> a \<in> set (Attachments d')"
    by (simp_all add: d'_def list_all_iff)
  with run gone show ?thesis
    by blast
qed

theorem delete_issue_cascade_witness:
  "findIssue files_db ''i1'' = Some demo_issue
   \<and> findProject files_db (projectId demo_issue) = Some demo_project
   \<and> owner demo_project = user_id alice
   \<and> distinct (map issue_id (Issues files_db))
   \<and> attachments demo_issue = [''a1''] \<and> attachment comment_one = [''a2'']
   \<and> route files_db alice 0 (DeleteIssue ''i1'')
       = (Inr (Message ''Issue and associated data deleted successfully''),
          files_db\<lparr>Comments := [comment_two], Attachments := [file_of ''a2'', file_of ''a3''],
            Issues := []\<rparr>)"
proof -
  have x: "findIssue files_db ''i1'' = Some demo_issue"
    by code_simp
  have p: "findProject files_db (projectId demo_issue) = Some demo_project"
    by code_simp
  have a: "owner demo_project = user_id alice"
    by code_simp
  have rest: "distinct (map issue_id (Issues files_db))
   \<and> attachments demo_issue = [''a1''] \<and> attachment comment_one = [''a2'']
   \<and> route files_db alice 0 (DeleteIssue ''i1'')
       = (Inr (Message ''Issue and associated data deleted successfully''),
          files_db\<lparr>Comments := [comment_two], Attachments := [file_of ''a2'', file_of ''a3''],
            Issues := []\<rparr>)"
    by code_simp
  from delete_issue_cascade [OF x p disjI1 [OF a], of 0] x p a rest show ?thesis
    by blast
qed

text \<open>
  C10. For an existing issue of an existing project, checkIssueDeletePermission passes, and
  the delete request succeeds, exactly when the caller is the project owner or the issue's
  reporter: membership is not asked. A reporter who is no longer a member still deletes the
  issue, while the same user's update request is refused with Forbidden by
  checkIssuePermission, which tests membership first.
\<close>

theorem delete_needs_no_membership:
  assumes x: "findIssue d i = Some x"
    and p: "findProject d (projectId x) = Some p"
  shows "((\<exists>y. checkIssueDeletePermission d u i = Inr y)
            \<longleftrightarrow> owner p = user_id u \<or> reporter x = user_id u)
       \<and> ((\<exists>r d'. route d u now (DeleteIssue i) = (Inr r, d'))
            \<longleftrightarrow> owner p = user_id u \<or> reporter x = user_id u)
       \<and> (\<not> isMember p u
           \<longrightarrow> route d u now (PutIssue i b)
               = (Inl (Forbidden ''Access denied - Not a project member''), d))
       \<and> (reporter x = user_id u \<and> \<not> isMember p u
           \<longrightarrow> route d u now (DeleteIssue i)
                 = (Inr (Message ''Issue and associated data deleted successfully''),
                    d\<lparr>Comments := filter (\<lambda>c. issueId c \<noteq> i) (Comments d),
                      Attachments :=
                        filter (\<lambda>a. attachment_id a \<notin> set (attachments x)) (Attachments d),
                      Issues := remove1 x (Issues d)\<rparr>)
               \<and> route d u now (PutIssue i b)
                 = (Inl (Forbidden ''Access denied - Not a project member''), d))"
proof -
  have chk: "(\<exists>y. checkIssueDeletePermission d u i = Inr y)
            \<longleftrightarrow> owner p = user_id u \<or> reporter x = user_id u"
    using x p by (auto simp: checkIssueDeletePermission_def)
  have del: "(\<exists>r d'. route d u now (DeleteIssue i) = (Inr r, d'))
            \<longleftrightarrow> owner p = user_id u \<or> reporter x = user_id u"
  proof (cases "owner p = user_id u \<or> reporter x = user_id u")
    case True
    from delete_route [OF x p True, of now] True show ?thesis
      by (simp del: route.simps)
  next
    case False
    from delete_route_denied [OF x p False, of now] False show ?thesis
      by (simp del: route.simps)
  qed
  have upd: "route d u now (PutIssue i b)
               = (Inl (Forbidden ''Access denied - Not a project member''), d)"
    if "\<not> isMember p u"
    using x p that by (simp add: via_def checkIssuePermission_def)
  from chk del upd delete_route [OF x p, of u now] show ?thesis
    by blast
qed

theorem delete_needs_no_membership_witness:
  "findIssue removed_db ''i1'' = Some demo_issue
   \<and> findProject removed_db (projectId demo_issue) = Some (demo_project\<lparr>member := [''u1'']\<rparr>)
   \<and> reporter demo_issue = user_id bob
   \<and> \<not> isMember (demo_project\<lparr>member := [''u1'']\<rparr>) bob
   \<and> route removed_db bob 0 (DeleteIssue ''i1'')
       = (Inr (Message ''Issue and associated data deleted successfully''),
          removed_db\<lparr>Issues := []\<rparr>)
   \<and> route removed_db bob 0 (PutIssue ''i1'' done_body)
       = (Inl (Forbidden ''Access denied - Not a project member''), removed_db)"
proof -
  have x: "findIssue removed_db ''i1'' = Some demo_issue"
    by code_simp
  have p: "findProject removed_db (projectId demo_issue)
      = Some (demo_project\<lparr>member := [''u1'']\<rparr>)"
    by code_simp
  have r: "reporter demo_issue = user_id bob \<and> \<not> isMember (demo_project\<lparr>member := [''u1'']\<rparr>) bob"
    by code_simp
  have same: "removed_db\<lparr>Comments := filter (\<lambda>c. issueId c \<noteq> ''i1'') (Comments removed_db),
       Attachments := filter (\<lambda>a. attachment_id a \<notin> set (attachments demo_issue))
         (Attachments removed_db),
       Issues := remove1 demo_issue (Issues removed_db)\<rparr> = removed_db\<lparr>Issues := []\<rparr>"
    by code_simp
  from delete_needs_no_membership [OF x p, of bob 0 done_body] r
  have "route removed_db bob 0 (DeleteIssue ''i1'')
       = (Inr (Message ''Issue and associated data deleted successfully''),
          removed_db\<lparr>Comments := filter (\<lambda>c. issueId c \<noteq> ''i1'') (Comments removed_db),
       Attachments := filter (\<lambda>a. attachment_id a \<notin> set (attachments demo_issue))
         (Attachments removed_db),
       Issues := remove1 demo_issue (Issues removed_db)\<rparr>)
     \<and> route removed_db bob 0 (PutIssue ''i1'' done_body)
       = (Inl (Forbidden ''Access denied - Not a project member''), removed_db)"
    by blast
  with same x p r show ?thesis
    by simp
qed

section \<open>Issue keys\<close>

lemma digit_value_digit_char: "digit_value (digit_char d) = d mod 10"
proof -
  have small: "k < 10 \<Longrightarrow> of_char (''0123456789'' ! k) - 48 = k" for k :: nat
    by (simp add: less_Suc_eq numeral_eq_Suc) (elim disjE; simp)
  have "d mod 10 < 10" by simp
  then have "of_char (''0123456789'' ! (d mod 10)) - 48 = d mod 10"
    by (rule small)
  then show ?thesis
    by (simp add: digit_char_def digit_value_def)
qed

lemma read_nat_snoc: "read_nat (s @ [c]) = 10 * read_nat s + digit_value c"
  by (simp add: read_nat_def)

lemma read_show_nat: "read_nat (show_nat n) = n"
proof (induction n rule: show_nat.induct)
  case (1 n)
  show ?case
  proof (cases "n < 10")
    case True
    then show ?thesis
      by (subst show_nat.simps) (simp add: read_nat_def digit_value_digit_char)
  next
    case False
    with 1 have "read_nat (show_nat (n div 10)) = n div 10" by simp
    with False show ?thesis
      by (subst show_nat.simps) (simp add: read_nat_snoc digit_value_digit_char)
  qed
qed

lemma digit_char_digit: "digit_char d \<in> set ''0123456789''"
proof -
  have "d mod 10 < length ''0123456789''" by simp
  then have "''0123456789'' ! (d mod 10) \<in> set ''0123456789''"
    by (rule nth_mem)
  then show ?thesis
    by (simp only: digit_char_def)
qed

lemma show_nat_subset: "set (show_nat n) \<subseteq> set ''0123456789''"
proof (induction n rule: show_nat.induct)
  case (1 n)
  define D where "D = set ''0123456789''"
  have dc: "digit_char k \<in> D" for k
    unfolding D_def by (rule digit_char_digit)
  have "set (show_nat n) \<subseteq> D"
  proof (cases "n < 10")
    case True
    then show ?thesis
      by (subst show_nat.simps) (simp add: dc)
  next
    case False
    with 1 have "set (show_nat (n div 10)) \<subseteq> D"
      by (simp add: D_def)
    with False show ?thesis
      by (subst show_nat.simps) (simp add: dc)
  qed
  then show ?case
    by (simp only: D_def)
qed

lemma show_nat_digits: "list_all (\<lambda>c. c \<in> set ''0123456789'') (show_nat n)"
  unfolding list_all_iff using show_nat_subset [of n] by blast

lemma show_nat_nonempty: "show_nat n \<noteq> []"
  by (subst show_nat.simps) simp

lemma digit_char_zero: "d < 10 \<Longrightarrow> digit_char d = CHR ''0'' \<Longrightarrow> d = 0"
proof -
  assume "d < 10" and z: "digit_char d = CHR ''0''"
  have "digit_value (digit_char d) = d mod 10"
    by (rule digit_value_digit_char)
  with z \<open>d < 10\<close> show "d = 0"
    by (simp add: digit_value_def)
qed

lemma show_nat_leading: "0 < n \<Longrightarrow> hd (show_nat n) \<noteq> CHR ''0''"
proof (induction n rule: show_nat.induct)
  case (1 n)
  show ?case
  proof (cases "n < 10")
    case True
    with "1.prems" digit_char_zero [of n] show ?thesis
      by (subst show_nat.simps) auto
  next
    case False
    then have "0 < n div 10" by simp
    with 1 False have "hd (show_nat (n div 10)) \<noteq> CHR ''0''"
      by simp
    with False show ?thesis
      by (subst show_nat.simps) (simp add: show_nat_nonempty)
  qed
qed

lemma show_nat_examples:
  "show_nat 0 = ''0''" "show_nat 7 = ''7''" "show_nat 10 = ''10''" "show_nat 2048 = ''2048''"
  by code_simp+

lemma create_issue_success:
  assumes "route d u now (PostIssue pid b newId) = (Inr r, d')"
    and "findProject d pid = Some p"
  shows "\<exists>y. r = IssueData y
          \<and> issue_key y = key p @ ''-''
              @ show_nat (length (filter (\<lambda>x. projectId x = pid) (Issues d)) + 1)
          \<and> projectId y = pid \<and> reporter y = user_id u
          \<and> assignee y = or_null (b_assignee b)
          \<and> (truthy (b_assignee b) \<longrightarrow> val_of (b_assignee b) \<in> set (member p))
          \<and> Issues d' = Issues d @ [y]"
  using assms
  by (auto simp: via_def checkProjectMember_def createIssue_def Let_def list_ex_iff
      split: if_splits)

text \<open>
  C9. When the create request for a project succeeds, the new issue has the key
  \<open>{project.key}-{N+1}\<close>, N being the number of issues stored with that projectId at the
  call, and is appended to the stored issues; the request of a member succeeds with that key
  when the body is valid (assignee falsy or a member, title and description given, priority
  of the enum, dueDate no invalid date) and no stored issue has the key yet. The number is
  printed as its decimal numeral: digits only, no leading zero, and read back it is the
  number. In particular, after a user has created the project with key DEMO in an empty
  store, their first two issues get the keys DEMO-1 and DEMO-2.
\<close>

theorem issue_key_sequential:
  "(route d u now (PostIssue pid b newId) = (Inr r, d') \<and> findProject d pid = Some p
      \<longrightarrow> (\<exists>y. r = IssueData y
             \<and> issue_key y = key p @ ''-''
                 @ show_nat (length (filter (\<lambda>x. projectId x = pid) (Issues d)) + 1)
             \<and> projectId y = pid
             \<and> Issues d' = Issues d @ [y]))
   \<and> (findProject d pid = Some p \<and> isMember p u
        \<and> (truthy (b_assignee b) \<longrightarrow> val_of (b_assignee b) \<in> set (member p))
        \<and> required (b_title b) \<and> required (b_description b)
        \<and> or_else (b_priority b) ''medium'' \<in> set priority_enum
        \<and> b_dueDate b \<noteq> Val NotADate
        \<and> list_all (\<lambda>y. issue_key y \<noteq> key p @ ''-''
              @ show_nat (length (filter (\<lambda>x. projectId x = pid) (Issues d)) + 1)) (Issues d)
      \<longrightarrow> created_key (route d u now (PostIssue pid b newId))
            = Some (key p @ ''-''
                @ show_nat (length (filter (\<lambda>x. projectId x = pid) (Issues d)) + 1)))
   \<and> read_nat (show_nat n) = n
   \<and> list_all (\<lambda>c. c \<in> set ''0123456789'') (show_nat n)
   \<and> show_nat n \<noteq> []
   \<and> (0 < n \<longrightarrow> hd (show_nat n) \<noteq> CHR ''0'')
   \<and> created_key (route (run empty_db alice 0 [PostProject demo_body ''p1'']) alice 0
         (PostIssue ''p1'' issue_body ''i1'')) = Some ''DEMO-1''
   \<and> created_key (route (run empty_db alice 0
           [PostProject demo_body ''p1'', PostIssue ''p1'' issue_body ''i1'']) alice 0
         (PostIssue ''p1'' issue_body ''i2'')) = Some ''DEMO-2''"
proof (intro conjI impI)
  assume "route d u now (PostIssue pid b newId) = (Inr r, d') \<and> findProject d pid = Some p"
  then show "\<exists>y. r = IssueData y
             \<and> issue_key y = key p @ ''-''
                 @ show_nat (length (filter (\<lambda>x. projectId x = pid) (Issues d)) + 1)
             \<and> projectId y = pid
             \<and> Issues d' = Issues d @ [y]"
    using create_issue_success [of d u now pid b newId r d' p] by blast
next
  assume "findProject d pid = Some p \<and> isMember p u
        \<and> (truthy (b_assignee b) \<longrightarrow> val_of (b_assignee b) \<in> set (member p))
        \<and> required (b_title b) \<and> required (b_description b)
        \<and> or_else (b_priority b) ''medium'' \<in> set priority_enum
        \<and> b_dueDate b \<noteq> Val NotADate
        \<and> list_all (\<lambda>y. issue_key y \<noteq> key p @ ''-''
              @ show_nat (length (filter (\<lambda>x. projectId x = pid) (Issues d)) + 1)) (Issues d)"
  then show "created_key (route d u now (PostIssue pid b newId))
            = Some (key p @ ''-''
                @ show_nat (length (filter (\<lambda>x. projectId x = pid) (Issues d)) + 1))"
    by (auto simp: via_def checkProjectMember_def createIssue_def Let_def list_ex_iff
        list_all_iff created_key_def)
next
  show "read_nat (show_nat n) = n"
    by (rule read_show_nat)
next
  show "list_all (\<lambda>c. c \<in> set ''0123456789'') (show_nat n)"
    by (rule show_nat_digits)
next
  show "show_nat n \<noteq> []"
    by (rule show_nat_nonempty)
next
  assume "0 < n"
  then show "hd (show_nat n) \<noteq> CHR ''0''"
    by (rule show_nat_leading)
next
  show "created_key (route (run empty_db alice 0 [PostProject demo_body ''p1'']) alice 0
         (PostIssue ''p1'' issue_body ''i1'')) = Some ''DEMO-1''"
    by code_simp
next
  show "created_key (route (run empty_db alice 0
           [PostProject demo_body ''p1'', PostIssue ''p1'' issue_body ''i1'']) alice 0
         (PostIssue ''p1'' issue_body ''i2'')) = Some ''DEMO-2''"
    by code_simp
qed

theorem issue_key_sequential_witness:
  "route issue_db alice 0 (PostIssue ''p1'' issue_body ''i2'')
     = (Inr (IssueData second_issue), issue_db\<lparr>Issues := [demo_issue, second_issue]\<rparr>)
   \<and> findProject issue_db ''p1'' = Some demo_project
   \<and> key demo_project = ''DEMO''
   \<and> length (filter (\<lambda>x. projectId x = ''p1'') (Issues issue_db)) = 1
   \<and> show_nat 2 = ''2''
   \<and> issue_key second_issue = ''DEMO-2''
   \<and> isMember demo_project alice \<and> \<not> truthy (b_assignee issue_body)
   \<and> required (b_title issue_body) \<and> required (b_description issue_body)
   \<and> or_else (b_priority issue_body) ''medium'' \<in> set priority_enum
   \<and> b_dueDate issue_body \<noteq> Val NotADate
   \<and> list_all (\<lambda>y. issue_key y \<noteq> ''DEMO-2'') (Issues issue_db)
   \<and> created_key (route issue_db alice 0 (PostIssue ''p1'' issue_body ''i2'')) = Some ''DEMO-2''
   \<and> (0::nat) < 120 \<and> show_nat 120 = ''120'' \<and> hd (show_nat 120) \<noteq> CHR ''0''
   \<and> read_nat (show_nat 120) = 120"
proof -
  have a: "route issue_db alice 0 (PostIssue ''p1'' issue_body ''i2'')
     = (Inr (IssueData second_issue), issue_db\<lparr>Issues := [demo_issue, second_issue]\<rparr>)"
    by code_simp
  have b: "findProject issue_db ''p1'' = Some demo_project"
    by code_simp
  have c: "key demo_project = ''DEMO''
   \<and> length (filter (\<lambda>x. projectId x = ''p1'') (Issues issue_db)) = 1
   \<and> show_nat 2 = ''2''
   \<and> issue_key second_issue = ''DEMO-2''
   \<and> isMember demo_project alice \<and> \<not> truthy (b_assignee issue_body)
   \<and> required (b_title issue_body) \<and> required (b_description issue_body)
   \<and> or_else (b_priority issue_body) ''medium'' \<in> set priority_enum
   \<and> b_dueDate issue_body \<noteq> Val NotADate
   \<and> list_all (\<lambda>y. issue_key y \<noteq> ''DEMO-2'') (Issues issue_db)"
    by code_simp
  have n: "(0::nat) < 120" "show_nat 120 = ''120''"
    by code_simp+
  note t = issue_key_sequential [of issue_db alice 0 "''p1''" issue_body "''i2''"
        "IssueData second_issue" "issue_db\<lparr>Issues := [demo_issue, second_issue]\<rparr>"
        demo_project 120]
  have e: "created_key (route issue_db alice 0 (PostIssue ''p1'' issue_body ''i2'')) = Some ''DEMO-2''"
    using t a b c by (simp del: route.simps)
  have f: "hd (show_nat 120) \<noteq> CHR ''0''" "read_nat (show_nat 120) = 120"
    using t n(1) by blast+
  from a b c e n f show ?thesis
    by blast
qed

section \<open>The assignee is a member\<close>

text \<open>
  C2 as stated fails. The empty string is a non-null assignee and no member of the
  project, yet the create request and the assign request that carry it succeed: the
  handlers test the property for truthiness, skip the membership check and store null.
\<close>

theorem empty_assignee_unchecked_counterexample:
  "findProject issue_db ''p1'' = Some demo_project
   \<and> isMember demo_project alice
   \<and> b_assignee blank_assignee_body = Val ''''
   \<and> b_assignee blank_assignee_body \<noteq> Null
   \<and> '''' \<notin> set (member demo_project)
   \<and> route issue_db alice 0 (PostIssue ''p1'' blank_assignee_body ''i2'')
       = (Inr (IssueData second_issue), issue_db\<lparr>Issues := [demo_issue, second_issue]\<rparr>)
   \<and> assignee second_issue = None
   \<and> route issue_db alice 0 (PutIssueAssign ''i1'' blank_assignee_body)
       = (Inr (IssueData (demo_issue\<lparr>assignee := None\<rparr>)),
          issue_db\<lparr>Issues := [demo_issue\<lparr>assignee := None\<rparr>]\<rparr>)"
  by code_simp

lemma update_issue_success:
  assumes "route d u now (PutIssue i b) = (Inr r, d')"
    and "findIssue d i = Some x"
    and "findProject d (projectId x) = Some q"
  shows "\<exists>y. r = IssueData y \<and> d' = save_issue d y
          \<and> (case b_assignee b of
                Undefined \<Rightarrow> assignee y = assignee x
              | Null \<Rightarrow> assignee y = None
              | Val a \<Rightarrow> a \<noteq> [] \<and> a \<in> set (member q) \<and> assignee y = Some a)"
  using assms
  by (cases "b_assignee b")
    (auto simp: via_def checkIssuePermission_def updateIssue_def Let_def list_ex_iff
      split: if_splits)

lemma assign_issue_success:
  assumes "route d u now (PutIssueAssign i b) = (Inr r, d')"
    and "findIssue d i = Some x"
    and "findProject d (projectId x) = Some q"
  shows "\<exists>y. r = IssueData y \<and> d' = save_issue d y \<and> assignee_ok q y
          \<and> assignee y = or_null (or_field (b_assigneeId b) (b_assignee b))"
  using assms
  by (cases "or_field (b_assigneeId b) (b_assignee b)")
    (auto simp: via_def checkIssuePermission_def assignIssue_def Let_def list_ex_iff
      assignee_ok_def split: if_splits)

text \<open>
  C2, amended. Each of createIssue, updateIssue and assignIssue, given a truthy assignee
  (a non-empty string) by a caller who passes the permission checks, fails with BadRequest
  and leaves the store unchanged when that assignee is not a current member of the
  project. When one of the three requests succeeds, an assignee that it sets is a current
  member of the project: createIssue and assignIssue store the given value, and null when
  it is falsy; updateIssue stores a given value only when it is non-empty and a member,
  stores null for null, and, when the body has no assignee property, sets nothing and
  keeps the assignee the issue had.
\<close>

theorem assignee_checked_when_truthy:
  "(findProject d pid = Some p \<and> isMember p u
      \<and> b_assignee b = Val a \<and> a \<noteq> [] \<and> a \<notin> set (member p)
     \<longrightarrow> route d u now (PostIssue pid b newId)
         = (Inl (BadRequest ''Assignee must be a project member''), d))
   \<and> (findIssue d i = Some x \<and> findProject d (projectId x) = Some q
        \<and> isMember q u \<and> isIssueActor q x u
        \<and> b_assignee b = Val a \<and> a \<noteq> [] \<and> a \<notin> set (member q)
     \<longrightarrow> route d u now (PutIssue i b)
         = (Inl (BadRequest ''Assignee must be a project member''), d))
   \<and> (findIssue d i = Some x \<and> findProject d (projectId x) = Some q
        \<and> isMember q u \<and> isIssueActor q x u
        \<and> or_field (b_assigneeId b) (b_assignee b) = Val a \<and> a \<noteq> [] \<and> a \<notin> set (member q)
     \<longrightarrow> route d u now (PutIssueAssign i b)
         = (Inl (BadRequest ''Assignee must be a project member''), d))
   \<and> (route d u now (PostIssue pid b newId) = (Inr r, d') \<and> findProject d pid = Some p
     \<longrightarrow> (\<exists>y. r = IssueData y \<and> Issues d' = Issues d @ [y]
              \<and> assignee y = or_null (b_assignee b) \<and> assignee_ok p y))
   \<and> (route d u now (PutIssue i b) = (Inr r, d') \<and> findIssue d i = Some x
        \<and> findProject d (projectId x) = Some q
     \<longrightarrow> (\<exists>y. r = IssueData y \<and> d' = save_issue d y
              \<and> (case b_assignee b of
                    Undefined \<Rightarrow> assignee y = assignee x
                  | Null \<Rightarrow> assignee y = None
                  | Val c \<Rightarrow> c \<noteq> [] \<and> c \<in> set (member q) \<and> assignee y = Some c)))
   \<and> (route d u now (PutIssueAssign i b) = (Inr r, d') \<and> findIssue d i = Some x
        \<and> findProject d (projectId x) = Some q
     \<longrightarrow> (\<exists>y. r = IssueData y \<and> d' = save_issue d y
              \<and> assignee y = or_null (or_field (b_assigneeId b) (b_assignee b))
              \<and> assignee_ok q y))"
proof (intro conjI impI)
  assume "findProject d pid = Some p \<and> isMember p u
      \<and> b_assignee b = Val a \<and> a \<noteq> [] \<and> a \<notin> set (member p)"
  then show "route d u now (PostIssue pid b newId)
         = (Inl (BadRequest ''Assignee must be a project member''), d)"
    by (simp add: via_def checkProjectMember_def createIssue_def list_ex_iff)
next
  assume "findIssue d i = Some x \<and> findProject d (projectId x) = Some q
        \<and> isMember q u \<and> isIssueActor q x u
        \<and> b_assignee b = Val a \<and> a \<noteq> [] \<and> a \<notin> set (member q)"
  then show "route d u now (PutIssue i b)
         = (Inl (BadRequest ''Assignee must be a project member''), d)"
    by (auto simp: via_def checkIssuePermission_def updateIssue_def list_ex_iff isIssueActor_def)
next
  assume "findIssue d i = Some x \<and> findProject d (projectId x) = Some q
        \<and> isMember q u \<and> isIssueActor q x u
        \<and> or_field (b_assigneeId b) (b_assignee b) = Val a \<and> a \<noteq> [] \<and> a \<notin> set (member q)"
  then show "route d u now (PutIssueAssign i b)
         = (Inl (BadRequest ''Assignee must be a project member''), d)"
    by (simp add: via_def checkIssuePermission_def assignIssue_def list_ex_iff)
next
  assume "route d u now (PostIssue pid b newId) = (Inr r, d') \<and> findProject d pid = Some p"
  then obtain y where "r = IssueData y" "Issues d' = Issues d @ [y]"
      "assignee y = or_null (b_assignee b)"
      "truthy (b_assignee b) \<longrightarrow> val_of (b_assignee b) \<in> set (member p)"
    using create_issue_success [of d u now pid b newId r d' p] by blast
  moreover from this have "assignee_ok p y"
    by (cases "b_assignee b") (auto simp: assignee_ok_def)
  ultimately show "\<exists>y. r = IssueData y \<and> Issues d' = Issues d @ [y]
              \<and> assignee y = or_null (b_assignee b) \<and> assignee_ok p y"
    by blast
next
  assume "route d u now (PutIssue i b) = (Inr r, d') \<and> findIssue d i = Some x
        \<and> findProject d (projectId x) = Some q"
  then show "\<exists>y. r = IssueData y \<and> d' = save_issue d y
              \<and> (case b_assignee b of
                    Undefined \<Rightarrow> assignee y = assignee x
                  | Null \<Rightarrow> assignee y = None
                  | Val c \<Rightarrow> c \<noteq> [] \<and> c \<in> set (member q) \<and> assignee y = Some c)"
    using update_issue_success [of d u now i b r d' x q] by blast
next
  assume "route d u now (PutIssueAssign i b) = (Inr r, d') \<and> findIssue d i = Some x
        \<and> findProject d (projectId x) = Some q"
  then show "\<exists>y. r = IssueData y \<and> d' = save_issue d y
              \<and> assignee y = or_null (or_field (b_assigneeId b) (b_assignee b))
              \<and> assignee_ok q y"
    using assign_issue_success [of d u now i b r d' x q] by blast
qed

theorem assignee_checked_when_truthy_witness:
  "findProject issue_db ''p1'' = Some demo_project
   \<and> findIssue issue_db ''i1'' = Some demo_issue
   \<and> findProject issue_db (projectId demo_issue) = Some demo_project
   \<and> isMember demo_project alice \<and> isIssueActor demo_project demo_issue alice
   \<and> b_assignee assign_outsider_body = Val ''u3''
   \<and> or_field (b_assigneeId assign_carol_body) (b_assignee assign_carol_body) = Val ''u3''
   \<and> ''u3'' \<noteq> [] \<and> ''u3'' \<notin> set (member demo_project)
   \<and> route issue_db alice 0 (PostIssue ''p1'' assign_outsider_body ''i2'')
       = (Inl (BadRequest ''Assignee must be a project member''), issue_db)
   \<and> route issue_db alice 0 (PutIssue ''i1'' assign_outsider_body)
       = (Inl (BadRequest ''Assignee must be a project member''), issue_db)
   \<and> route issue_db alice 0 (PutIssueAssign ''i1'' assign_carol_body)
       = (Inl (BadRequest ''Assignee must be a project member''), issue_db)
   \<and> route issue_db alice 0 (PostIssue ''p1'' assign_alice_body ''i2'')
       = (Inr (IssueData (second_issue\<lparr>assignee := Some ''u1''\<rparr>)),
          issue_db\<lparr>Issues := [demo_issue, second_issue\<lparr>assignee := Some ''u1''\<rparr>]\<rparr>)
   \<and> assignee_ok demo_project (second_issue\<lparr>assignee := Some ''u1''\<rparr>)
   \<and> route issue_db alice 0 (PutIssue ''i1'' assign_alice_body)
       = (Inr (IssueData updated_issue), save_issue issue_db updated_issue)
   \<and> b_assignee assign_alice_body = Val ''u1''
   \<and> ''u1'' \<in> set (member demo_project) \<and> assignee updated_issue = Some ''u1''
   \<and> route issue_db alice 0 (PutIssueAssign ''i1'' assign_alice_body)
       = (Inr (IssueData (demo_issue\<lparr>assignee := Some ''u1''\<rparr>)),
          save_issue issue_db (demo_issue\<lparr>assignee := Some ''u1''\<rparr>))
   \<and> assignee_ok demo_project (demo_issue\<lparr>assignee := Some ''u1''\<rparr>)
   \<and> findIssue removed_db ''i1'' = Some demo_issue
   \<and> findProject removed_db (projectId demo_issue) = Some (demo_project\<lparr>member := [''u1'']\<rparr>)
   \<and> b_assignee rename_body = Undefined
   \<and> route removed_db alice 0 (PutIssue ''i1'' rename_body)
       = (Inr (IssueData (demo_issue\<lparr>title := ''Renamed''\<rparr>)),
          save_issue removed_db (demo_issue\<lparr>title := ''Renamed''\<rparr>))
   \<and> assignee (demo_issue\<lparr>title := ''Renamed''\<rparr>) = assignee demo_issue"
proof -
  have p: "findProject issue_db ''p1'' = Some demo_project"
    by code_simp
  have x: "findIssue issue_db ''i1'' = Some demo_issue"
    by code_simp
  have q: "findProject issue_db (projectId demo_issue) = Some demo_project"
    by code_simp
  have m: "isMember demo_project alice \<and> isIssueActor demo_project demo_issue alice"
    by code_simp
  have o: "b_assignee assign_outsider_body = Val ''u3''"
    "or_field (b_assigneeId assign_carol_body) (b_assignee assign_carol_body) = Val ''u3''"
    "''u3'' \<noteq> []" "''u3'' \<notin> set (member demo_project)"
    "b_assignee assign_alice_body = Val ''u1''"
    "b_assignee rename_body = Undefined"
    by code_simp+
  have c1: "route issue_db alice 0 (PostIssue ''p1'' assign_alice_body ''i2'')
       = (Inr (IssueData (second_issue\<lparr>assignee := Some ''u1''\<rparr>)),
          issue_db\<lparr>Issues := [demo_issue, second_issue\<lparr>assignee := Some ''u1''\<rparr>]\<rparr>)"
    by code_simp
  have c2: "route issue_db alice 0 (PutIssue ''i1'' assign_alice_body)
       = (Inr (IssueData updated_issue), save_issue issue_db updated_issue)"
    by code_simp
  have c3: "route issue_db alice 0 (PutIssueAssign ''i1'' assign_alice_body)
       = (Inr (IssueData (demo_issue\<lparr>assignee := Some ''u1''\<rparr>)),
          save_issue issue_db (demo_issue\<lparr>assignee := Some ''u1''\<rparr>))"
    by code_simp
  have x': "findIssue removed_db ''i1'' = Some demo_issue"
    by code_simp
  have q': "findProject removed_db (projectId demo_issue)
      = Some (demo_project\<lparr>member := [''u1'']\<rparr>)"
    by code_simp
  have c4: "route removed_db alice 0 (PutIssue ''i1'' rename_body)
       = (Inr (IssueData (demo_issue\<lparr>title := ''Renamed''\<rparr>)),
          save_issue removed_db (demo_issue\<lparr>title := ''Renamed''\<rparr>))"
    by code_simp
  note t1 = assignee_checked_when_truthy [of issue_db "''p1''" demo_project alice
      assign_outsider_body "''u3''" 0 "''i2''" "''i1''" demo_issue demo_project]
  note t2 = assignee_checked_when_truthy [of issue_db "''p1''" demo_project alice
      assign_carol_body "''u3''" 0 "''i2''" "''i1''" demo_issue demo_project]
  note t3 = assignee_checked_when_truthy [of issue_db "''p1''" demo_project alice
      assign_alice_body "''u1''" 0 "''i2''" "''i1''" demo_issue demo_project]
  note t4 = assignee_checked_when_truthy [of removed_db "''p1''" demo_project alice
      rename_body "''u1''" 0 "''i2''" "''i1''" demo_issue "demo_project\<lparr>member := [''u1'']\<rparr>"
      "IssueData (demo_issue\<lparr>title := ''Renamed''\<rparr>)"
      "save_issue removed_db (demo_issue\<lparr>title := ''Renamed''\<rparr>)"]
  have b1: "route issue_db alice 0 (PostIssue ''p1'' assign_outsider_body ''i2'')
       = (Inl (BadRequest ''Assignee must be a project member''), issue_db)"
    using t1 p m o by blast
  have b2: "route issue_db alice 0 (PutIssue ''i1'' assign_outsider_body)
       = (Inl (BadRequest ''Assignee must be a project member''), issue_db)"
    using t1 x q m o by blast
  have b3: "route issue_db alice 0 (PutIssueAssign ''i1'' assign_carol_body)
       = (Inl (BadRequest ''Assignee must be a project member''), issue_db)"
    using t2 x q m o by blast
  have k1: "assignee_ok demo_project (second_issue\<lparr>assignee := Some ''u1''\<rparr>)"
    using t3 [of "IssueData (second_issue\<lparr>assignee := Some ''u1''\<rparr>)"
        "issue_db\<lparr>Issues := [demo_issue, second_issue\<lparr>assignee := Some ''u1''\<rparr>]\<rparr>"] c1 p
    by blast
  have k2: "''u1'' \<in> set (member demo_project) \<and> assignee updated_issue = Some ''u1''"
    using t3 [of "IssueData updated_issue" "save_issue issue_db updated_issue"] c2 x q o(5)
    by (simp del: route.simps)
  have k3: "assignee_ok demo_project (demo_issue\<lparr>assignee := Some ''u1''\<rparr>)"
    using t3 [of "IssueData (demo_issue\<lparr>assignee := Some ''u1''\<rparr>)"
        "save_issue issue_db (demo_issue\<lparr>assignee := Some ''u1''\<rparr>)"] c3 x q
    by blast
  have k4: "assignee (demo_issue\<lparr>title := ''Renamed''\<rparr>) = assignee demo_issue"
    using t4 c4 x' q' o(6) by (simp del: route.simps)
  from p x q m o b1 b2 b3 c1 c2 c3 k1 k2 k3 x' q' c4 k4 show ?thesis
    by blast
qed

end
